theory Spec2Isabelle
  imports Main "HOL-Library.Word"
begin

unbundle bit_operations_syntax

section \<open>Material.h: material keys and filters\<close>

subsection \<open>The enumerations\<close>

text \<open>
  \<open>MaterialKey::FlagBit\<close> and \<open>MaterialKey::MapChannel\<close> are plain C++ enumerations whose
  enumerators count up from 0. The last enumerator of each (\<open>NUM_FLAGS\<close>,
  \<open>NUM_MAP_CHANNELS\<close>) is the number of the ones before it. \<open>MapChannel\<close> has no fixed
  underlying type, so its values are exactly 0..7: the eight enumerators.
\<close>

datatype FlagBit =
    EMISSIVE_VAL_BIT
  | ALBEDO_VAL_BIT
  | METALLIC_VAL_BIT
  | GLOSS_VAL_BIT
  | TRANSPARENT_VAL_BIT
  | EMISSIVE_MAP_BIT
  | ALBEDO_MAP_BIT
  | METALLIC_MAP_BIT
  | GLOSS_MAP_BIT
  | TRANSPARENT_MAP_BIT
  | NORMAL_MAP_BIT
  | LIGHTMAP_MAP_BIT
  | NUM_FLAGS

fun FlagBit_val :: "FlagBit \<Rightarrow> nat" where
  "FlagBit_val EMISSIVE_VAL_BIT = 0"
| "FlagBit_val ALBEDO_VAL_BIT = 1"
| "FlagBit_val METALLIC_VAL_BIT = 2"
| "FlagBit_val GLOSS_VAL_BIT = 3"
| "FlagBit_val TRANSPARENT_VAL_BIT = 4"
| "FlagBit_val EMISSIVE_MAP_BIT = 5"
| "FlagBit_val ALBEDO_MAP_BIT = 6"
| "FlagBit_val METALLIC_MAP_BIT = 7"
| "FlagBit_val GLOSS_MAP_BIT = 8"
| "FlagBit_val TRANSPARENT_MAP_BIT = 9"
| "FlagBit_val NORMAL_MAP_BIT = 10"
| "FlagBit_val LIGHTMAP_MAP_BIT = 11"
| "FlagBit_val NUM_FLAGS = 12"

datatype MapChannel =
    EMISSIVE_MAP
  | ALBEDO_MAP
  | METALLIC_MAP
  | GLOSS_MAP
  | TRANSPARENT_MAP
  | NORMAL_MAP
  | LIGHTMAP_MAP
  | NUM_MAP_CHANNELS

fun MapChannel_val :: "MapChannel \<Rightarrow> nat" where
  "MapChannel_val EMISSIVE_MAP = 0"
| "MapChannel_val ALBEDO_MAP = 1"
| "MapChannel_val METALLIC_MAP = 2"
| "MapChannel_val GLOSS_MAP = 3"
| "MapChannel_val TRANSPARENT_MAP = 4"
| "MapChannel_val NORMAL_MAP = 5"
| "MapChannel_val LIGHTMAP_MAP = 6"
| "MapChannel_val NUM_MAP_CHANNELS = 7"

subsection \<open>\<open>std::bitset<NUM_FLAGS>\<close>\<close>

text \<open>
  \<open>typedef std::bitset<NUM_FLAGS> Flags\<close>: twelve bits, bit \<open>n\<close> of the word being position
  \<open>n\<close> of the bitset. \<open>set(pos, val)\<close>, \<open>set(pos)\<close> and \<open>reset(pos)\<close> throw
  \<open>std::out_of_range\<close> when \<open>pos\<close> is not a position of the bitset; the const
  \<open>operator[]\<close> makes no check, and reading a position that does not exist is undefined
  behaviour, which the model returns as \<open>None\<close>. \<open>to_ulong\<close> cannot overflow on twelve bits.
\<close>

type_synonym Flags = "12 word"

datatype error = out_of_range

definition bitset_set :: "Flags \<Rightarrow> nat \<Rightarrow> bool \<Rightarrow> error + Flags" where
  "bitset_set b pos val =
     (if FlagBit_val NUM_FLAGS \<le> pos then Inl out_of_range
      else Inr (if val then set_bit pos b else unset_bit pos b))"

definition bitset_reset :: "Flags \<Rightarrow> nat \<Rightarrow> error + Flags" where
  "bitset_reset b pos =
     (if FlagBit_val NUM_FLAGS \<le> pos then Inl out_of_range else Inr (unset_bit pos b))"

definition bitset_index :: "Flags \<Rightarrow> nat \<Rightarrow> bool option" where
  "bitset_index b pos = (if FlagBit_val NUM_FLAGS \<le> pos then None else Some (bit b pos))"

definition to_ulong :: "Flags \<Rightarrow> nat" where
  "to_ulong b = unat b"

text \<open>Sequencing of calls that may throw: the first exception ends the chain.\<close>

definition and_then :: "error + 'a \<Rightarrow> ('a \<Rightarrow> error + 'b) \<Rightarrow> error + 'b" where
  "and_then r f = (case r of Inl e \<Rightarrow> Inl e | Inr x \<Rightarrow> f x)"

subsection \<open>\<open>MaterialKey\<close>\<close>

record MaterialKey =
  flags :: Flags

definition MaterialKey_default :: MaterialKey where
  "MaterialKey_default = \<lparr>flags = 0\<rparr>"

definition MaterialKey_of :: "Flags \<Rightarrow> MaterialKey" where
  "MaterialKey_of fl = \<lparr>flags = fl\<rparr>"

text \<open>\<open>_flags.set(pos, value)\<close> on the key's own bit vector, as every setter does.\<close>

definition flags_set :: "MaterialKey \<Rightarrow> nat \<Rightarrow> bool \<Rightarrow> error + MaterialKey" where
  "flags_set k pos val =
     (case bitset_set (flags k) pos val of Inl e \<Rightarrow> Inl e | Inr fl \<Rightarrow> Inr (k\<lparr>flags := fl\<rparr>))"

definition setEmissive :: "MaterialKey \<Rightarrow> bool \<Rightarrow> error + MaterialKey" where
  "setEmissive k val = flags_set k (FlagBit_val EMISSIVE_VAL_BIT) val"

definition isEmissive :: "MaterialKey \<Rightarrow> bool option" where
  "isEmissive k = bitset_index (flags k) (FlagBit_val EMISSIVE_VAL_BIT)"

definition setEmissiveMap :: "MaterialKey \<Rightarrow> bool \<Rightarrow> error + MaterialKey" where
  "setEmissiveMap k val = flags_set k (FlagBit_val EMISSIVE_MAP_BIT) val"

definition isEmissiveMap :: "MaterialKey \<Rightarrow> bool option" where
  "isEmissiveMap k = bitset_index (flags k) (FlagBit_val EMISSIVE_MAP_BIT)"

definition setAlbedo :: "MaterialKey \<Rightarrow> bool \<Rightarrow> error + MaterialKey" where
  "setAlbedo k val = flags_set k (FlagBit_val ALBEDO_VAL_BIT) val"

definition isAlbedo :: "MaterialKey \<Rightarrow> bool option" where
  "isAlbedo k = bitset_index (flags k) (FlagBit_val ALBEDO_VAL_BIT)"

definition setAlbedoMap :: "MaterialKey \<Rightarrow> bool \<Rightarrow> error + MaterialKey" where
  "setAlbedoMap k val = flags_set k (FlagBit_val ALBEDO_MAP_BIT) val"

definition isAlbedoMap :: "MaterialKey \<Rightarrow> bool option" where
  "isAlbedoMap k = bitset_index (flags k) (FlagBit_val ALBEDO_MAP_BIT)"

definition setMetallic :: "MaterialKey \<Rightarrow> bool \<Rightarrow> error + MaterialKey" where
  "setMetallic k val = flags_set k (FlagBit_val METALLIC_VAL_BIT) val"

definition isMetallic :: "MaterialKey \<Rightarrow> bool option" where
  "isMetallic k = bitset_index (flags k) (FlagBit_val METALLIC_VAL_BIT)"

definition setMetallicMap :: "MaterialKey \<Rightarrow> bool \<Rightarrow> error + MaterialKey" where
  "setMetallicMap k val = flags_set k (FlagBit_val METALLIC_MAP_BIT) val"

definition isMetallicMap :: "MaterialKey \<Rightarrow> bool option" where
  "isMetallicMap k = bitset_index (flags k) (FlagBit_val METALLIC_MAP_BIT)"

definition setGloss :: "MaterialKey \<Rightarrow> bool \<Rightarrow> error + MaterialKey" where
  "setGloss k val = flags_set k (FlagBit_val GLOSS_VAL_BIT) val"

definition isGloss :: "MaterialKey \<Rightarrow> bool option" where
  "isGloss k = bitset_index (flags k) (FlagBit_val GLOSS_VAL_BIT)"

definition setGlossMap :: "MaterialKey \<Rightarrow> bool \<Rightarrow> error + MaterialKey" where
  "setGlossMap k val = flags_set k (FlagBit_val GLOSS_MAP_BIT) val"

definition isGlossMap :: "MaterialKey \<Rightarrow> bool option" where
  "isGlossMap k = bitset_index (flags k) (FlagBit_val GLOSS_MAP_BIT)"

definition setTransparent :: "MaterialKey \<Rightarrow> bool \<Rightarrow> error + MaterialKey" where
  "setTransparent k val = flags_set k (FlagBit_val TRANSPARENT_VAL_BIT) val"

definition isTransparent :: "MaterialKey \<Rightarrow> bool option" where
  "isTransparent k = bitset_index (flags k) (FlagBit_val TRANSPARENT_VAL_BIT)"

definition isOpaque :: "MaterialKey \<Rightarrow> bool option" where
  "isOpaque k = map_option Not (bitset_index (flags k) (FlagBit_val TRANSPARENT_VAL_BIT))"

definition setTransparentMap :: "MaterialKey \<Rightarrow> bool \<Rightarrow> error + MaterialKey" where
  "setTransparentMap k val = flags_set k (FlagBit_val TRANSPARENT_MAP_BIT) val"

definition isTransparentMap :: "MaterialKey \<Rightarrow> bool option" where
  "isTransparentMap k = bitset_index (flags k) (FlagBit_val TRANSPARENT_MAP_BIT)"

definition setNormalMap :: "MaterialKey \<Rightarrow> bool \<Rightarrow> error + MaterialKey" where
  "setNormalMap k val = flags_set k (FlagBit_val NORMAL_MAP_BIT) val"

definition isNormalMap :: "MaterialKey \<Rightarrow> bool option" where
  "isNormalMap k = bitset_index (flags k) (FlagBit_val NORMAL_MAP_BIT)"

definition setLightmapMap :: "MaterialKey \<Rightarrow> bool \<Rightarrow> error + MaterialKey" where
  "setLightmapMap k val = flags_set k (FlagBit_val LIGHTMAP_MAP_BIT) val"

definition isLightmapMap :: "MaterialKey \<Rightarrow> bool option" where
  "isLightmapMap k = bitset_index (flags k) (FlagBit_val LIGHTMAP_MAP_BIT)"

text \<open>The bit of a channel is \<open>EMISSIVE_MAP_BIT + channel\<close>, with no check of the channel.\<close>

definition channel_bit :: "MapChannel \<Rightarrow> nat" where
  "channel_bit channel = FlagBit_val EMISSIVE_MAP_BIT + MapChannel_val channel"

definition setMapChannel :: "MaterialKey \<Rightarrow> MapChannel \<Rightarrow> bool \<Rightarrow> error + MaterialKey" where
  "setMapChannel k channel val = flags_set k (channel_bit channel) val"

definition isMapChannel :: "MaterialKey \<Rightarrow> MapChannel \<Rightarrow> bool option" where
  "isMapChannel k channel = bitset_index (flags k) (channel_bit channel)"

subsection \<open>\<open>MaterialFilter\<close> and its builder\<close>

record MaterialFilter =
  f_value :: Flags
  f_mask :: Flags

definition MaterialFilter_of :: "Flags \<Rightarrow> Flags \<Rightarrow> MaterialFilter" where
  "MaterialFilter_of v m = \<lparr>f_value = v, f_mask = m\<rparr>"

record FilterBuilder =
  b_value :: Flags
  b_mask :: Flags

definition FilterBuilder_new :: FilterBuilder where
  "FilterBuilder_new = \<lparr>b_value = 0, b_mask = 0\<rparr>"

definition FilterBuilder_build :: "FilterBuilder \<Rightarrow> MaterialFilter" where
  "FilterBuilder_build b = MaterialFilter_of (b_value b) (b_mask b)"

text \<open>
  Every \<open>withX\<close> of the builder is \<open>_value.set(bit); _mask.set(bit)\<close> and every \<open>withoutX\<close>
  is \<open>_value.reset(bit); _mask.set(bit)\<close>.
\<close>

definition builder_with :: "FilterBuilder \<Rightarrow> FlagBit \<Rightarrow> error + FilterBuilder" where
  "builder_with b fb =
     and_then (bitset_set (b_value b) (FlagBit_val fb) True) (\<lambda>v.
     and_then (bitset_set (b_mask b) (FlagBit_val fb) True) (\<lambda>m.
     Inr (b\<lparr>b_value := v, b_mask := m\<rparr>)))"

definition builder_without :: "FilterBuilder \<Rightarrow> FlagBit \<Rightarrow> error + FilterBuilder" where
  "builder_without b fb =
     and_then (bitset_reset (b_value b) (FlagBit_val fb)) (\<lambda>v.
     and_then (bitset_set (b_mask b) (FlagBit_val fb) True) (\<lambda>m.
     Inr (b\<lparr>b_value := v, b_mask := m\<rparr>)))"

definition withAlbedo :: "FilterBuilder \<Rightarrow> error + FilterBuilder" where
  "withAlbedo b = builder_with b ALBEDO_VAL_BIT"

definition withoutAlbedo :: "FilterBuilder \<Rightarrow> error + FilterBuilder" where
  "withoutAlbedo b = builder_without b ALBEDO_VAL_BIT"

definition withTransparent :: "FilterBuilder \<Rightarrow> error + FilterBuilder" where
  "withTransparent b = builder_with b TRANSPARENT_VAL_BIT"

definition withoutTransparent :: "FilterBuilder \<Rightarrow> error + FilterBuilder" where
  "withoutTransparent b = builder_without b TRANSPARENT_VAL_BIT"

text \<open>\<open>Builder().withAlbedo().withoutTransparent().build()\<close>\<close>

definition opaqueAlbedo :: "error + MaterialFilter" where
  "opaqueAlbedo =
     and_then (withAlbedo FilterBuilder_new) (\<lambda>b.
     and_then (withoutTransparent b) (\<lambda>b'.
     Inr (FilterBuilder_build b')))"

definition test :: "MaterialFilter \<Rightarrow> MaterialKey \<Rightarrow> bool" where
  "test f key \<longleftrightarrow> (flags key AND f_mask f) = (f_value f AND f_mask f)"

definition Less :: "MaterialFilter \<Rightarrow> MaterialFilter \<Rightarrow> bool" where
  "Less left right =
     (if to_ulong (f_value left) = to_ulong (f_value right)
      then to_ulong (f_mask left) < to_ulong (f_mask right)
      else to_ulong (f_value left) < to_ulong (f_value right))"

subsection \<open>Sequences of public operations on a key or a filter\<close>

text \<open>
  The member functions of \<open>MaterialKey\<close>, one constructor per function. A \<open>set\<close> function
  returns the key it leaves behind (or the exception of the bitset); an \<open>is\<close> function is
  \<open>const\<close> and leaves the key as it is. The outer \<open>None\<close> is undefined behaviour (a read of
  a bit that does not exist).
\<close>

datatype KeyOp =
    SetEmissive bool | IsEmissive
  | SetEmissiveMap bool | IsEmissiveMap
  | SetAlbedo bool | IsAlbedo
  | SetAlbedoMap bool | IsAlbedoMap
  | SetMetallic bool | IsMetallic
  | SetMetallicMap bool | IsMetallicMap
  | SetGloss bool | IsGloss
  | SetGlossMap bool | IsGlossMap
  | SetTransparent bool | IsTransparent | IsOpaque
  | SetTransparentMap bool | IsTransparentMap
  | SetNormalMap bool | IsNormalMap
  | SetLightmapMap bool | IsLightmapMap
  | SetMapChannel MapChannel bool | IsMapChannel MapChannel

definition const_call :: "MaterialKey \<Rightarrow> bool option \<Rightarrow> (error + MaterialKey) option" where
  "const_call k r = (case r of None \<Rightarrow> None | Some b \<Rightarrow> Some (Inr k))"

fun KeyOp_apply :: "MaterialKey \<Rightarrow> KeyOp \<Rightarrow> (error + MaterialKey) option" where
  "KeyOp_apply k (SetEmissive v) = Some (setEmissive k v)"
| "KeyOp_apply k IsEmissive = const_call k (isEmissive k)"
| "KeyOp_apply k (SetEmissiveMap v) = Some (setEmissiveMap k v)"
| "KeyOp_apply k IsEmissiveMap = const_call k (isEmissiveMap k)"
| "KeyOp_apply k (SetAlbedo v) = Some (setAlbedo k v)"
| "KeyOp_apply k IsAlbedo = const_call k (isAlbedo k)"
| "KeyOp_apply k (SetAlbedoMap v) = Some (setAlbedoMap k v)"
| "KeyOp_apply k IsAlbedoMap = const_call k (isAlbedoMap k)"
| "KeyOp_apply k (SetMetallic v) = Some (setMetallic k v)"
| "KeyOp_apply k IsMetallic = const_call k (isMetallic k)"
| "KeyOp_apply k (SetMetallicMap v) = Some (setMetallicMap k v)"
| "KeyOp_apply k IsMetallicMap = const_call k (isMetallicMap k)"
| "KeyOp_apply k (SetGloss v) = Some (setGloss k v)"
| "KeyOp_apply k IsGloss = const_call k (isGloss k)"
| "KeyOp_apply k (SetGlossMap v) = Some (setGlossMap k v)"
| "KeyOp_apply k IsGlossMap = const_call k (isGlossMap k)"
| "KeyOp_apply k (SetTransparent v) = Some (setTransparent k v)"
| "KeyOp_apply k IsTransparent = const_call k (isTransparent k)"
| "KeyOp_apply k IsOpaque = const_call k (isOpaque k)"
| "KeyOp_apply k (SetTransparentMap v) = Some (setTransparentMap k v)"
| "KeyOp_apply k IsTransparentMap = const_call k (isTransparentMap k)"
| "KeyOp_apply k (SetNormalMap v) = Some (setNormalMap k v)"
| "KeyOp_apply k IsNormalMap = const_call k (isNormalMap k)"
| "KeyOp_apply k (SetLightmapMap v) = Some (setLightmapMap k v)"
| "KeyOp_apply k IsLightmapMap = const_call k (isLightmapMap k)"
| "KeyOp_apply k (SetMapChannel c v) = Some (setMapChannel k c v)"
| "KeyOp_apply k (IsMapChannel c) = const_call k (isMapChannel k c)"

fun KeyOps_run :: "MaterialKey \<Rightarrow> KeyOp list \<Rightarrow> (error + MaterialKey) option" where
  "KeyOps_run k [] = Some (Inr k)"
| "KeyOps_run k (x # xs) =
     (case KeyOp_apply k x of
        None \<Rightarrow> None
      | Some (Inl e) \<Rightarrow> Some (Inl e)
      | Some (Inr k') \<Rightarrow> KeyOps_run k' xs)"

fun is_const_op :: "KeyOp \<Rightarrow> bool" where
  "is_const_op (SetEmissive v) = False"
| "is_const_op (SetEmissiveMap v) = False"
| "is_const_op (SetAlbedo v) = False"
| "is_const_op (SetAlbedoMap v) = False"
| "is_const_op (SetMetallic v) = False"
| "is_const_op (SetMetallicMap v) = False"
| "is_const_op (SetGloss v) = False"
| "is_const_op (SetGlossMap v) = False"
| "is_const_op (SetTransparent v) = False"
| "is_const_op (SetTransparentMap v) = False"
| "is_const_op (SetNormalMap v) = False"
| "is_const_op (SetLightmapMap v) = False"
| "is_const_op (SetMapChannel c v) = False"
| "is_const_op x = True"

text \<open>
  \<open>MaterialFilter\<close> has one member function, \<open>test\<close>, and it is \<open>const\<close>; the comparison
  \<open>Less\<close> takes both filters by const reference. A call returns the filter as it was,
  with the answer.
\<close>

datatype FilterOp = Test MaterialKey | LessThan MaterialFilter

fun FilterOp_apply :: "MaterialFilter \<Rightarrow> FilterOp \<Rightarrow> MaterialFilter \<times> bool" where
  "FilterOp_apply f (Test key) = (f, test f key)"
| "FilterOp_apply f (LessThan g) = (f, Less f g)"

fun FilterOps_run :: "MaterialFilter \<Rightarrow> FilterOp list \<Rightarrow> MaterialFilter" where
  "FilterOps_run f [] = f"
| "FilterOps_run f (x # xs) = FilterOps_run (fst (FilterOp_apply f x)) xs"

section \<open>DrawTask.h: varyings, jobs and the bucket map\<close>

subsection \<open>\<open>Job::Varying\<close>\<close>

text \<open>
  A \<open>Varying\<close> holds a \<open>std::shared_ptr<Concept>\<close>; the object behind it is a
  \<open>Varying::Model<T>\<close> made by \<open>new\<close>, and copies of a \<open>Varying\<close> point to the same object.
  The objects live in a heap, a list indexed by address; \<open>new\<close> appends. \<open>Model_T\<close> is the
  template argument the object was made with. \<open>edit<T>()\<close> and \<open>get<T>()\<close> are an unchecked
  \<open>static_cast\<close> of the pointer followed by \<open>->_data\<close>: a reference to the payload, defined
  only if the pointer is not null and the object is a \<open>Model<T>\<close>. Undefined behaviour
  is \<open>None\<close>.
\<close>

type_synonym addr = nat

record ('ty, 'v) VaryingModel =
  Model_T :: 'ty
  Model_data :: 'v

type_synonym ('ty, 'v) heap = "('ty, 'v) VaryingModel list"

record Varying =
  v_concept :: "addr option"
  consumerJobs :: "nat list"

definition Varying_default :: Varying where
  "Varying_default = \<lparr>v_concept = None, consumerJobs = []\<rparr>"

definition Varying_copy :: "Varying \<Rightarrow> Varying" where
  "Varying_copy var = \<lparr>v_concept = v_concept var, consumerJobs = []\<rparr>"

definition Varying_of :: "'ty \<Rightarrow> 'v \<Rightarrow> ('ty, 'v) heap \<Rightarrow> Varying \<times> ('ty, 'v) heap" where
  "Varying_of ty d h =
     (\<lparr>v_concept = Some (length h), consumerJobs = []\<rparr>, h @ [\<lparr>Model_T = ty, Model_data = d\<rparr>])"

definition Varying_edit :: "'ty \<Rightarrow> Varying \<Rightarrow> ('ty, 'v) heap \<Rightarrow> addr option" where
  "Varying_edit ty var h =
     (case v_concept var of
        None \<Rightarrow> None
      | Some a \<Rightarrow> if a < length h \<and> Model_T (h ! a) = ty then Some a else None)"

definition Varying_get :: "'ty \<Rightarrow> Varying \<Rightarrow> ('ty, 'v) heap \<Rightarrow> addr option" where
  "Varying_get ty var h =
     (case v_concept var of
        None \<Rightarrow> None
      | Some a \<Rightarrow> if a < length h \<and> Model_T (h ! a) = ty then Some a else None)"

text \<open>
  Reading and assigning through a reference that \<open>get\<close> or \<open>edit\<close> returned. Such a
  reference is an address of the heap (both check \<open>a < length h\<close>), and the heap never
  shrinks; no other address is ever passed to these two.
\<close>

definition load :: "('ty, 'v) heap \<Rightarrow> addr \<Rightarrow> 'v" where
  "load h r = Model_data (h ! r)"

definition assign :: "('ty, 'v) heap \<Rightarrow> addr \<Rightarrow> 'v \<Rightarrow> ('ty, 'v) heap" where
  "assign h r x = h[r := (h ! r)\<lparr>Model_data := x\<rparr>]"

subsection \<open>The stage of a job and the four \<open>jobRun\<close> templates\<close>

text \<open>
  The machine a job runs on: the world behind the scene and render context pointers,
  and the heap of varying payloads. The template parameter \<open>T\<close> of a job model is a stage
  class; what its \<open>run\<close> member does (or the explicit specialisation of \<open>jobRun\<close> for a
  class without one, as for \<open>DrawOpaque\<close>) is not in this header, so it is a parameter:
  one function per signature, taking references as addresses. The stage value goes
  in by non-const reference, so it comes back with the machine.
\<close>

record ('w, 'ty, 'v) machine =
  world :: 'w
  heap :: "('ty, 'v) heap"

record ('t, 'sc, 'rc, 'w, 'ty, 'v) Stage =
  T_run :: "'t \<Rightarrow> 'sc \<Rightarrow> 'rc \<Rightarrow> ('w, 'ty, 'v) machine \<Rightarrow> 't \<times> ('w, 'ty, 'v) machine"
  T_run_I :: "'t \<Rightarrow> 'sc \<Rightarrow> 'rc \<Rightarrow> addr \<Rightarrow> ('w, 'ty, 'v) machine \<Rightarrow> 't \<times> ('w, 'ty, 'v) machine"
  T_run_O :: "'t \<Rightarrow> 'sc \<Rightarrow> 'rc \<Rightarrow> addr \<Rightarrow> ('w, 'ty, 'v) machine \<Rightarrow> 't \<times> ('w, 'ty, 'v) machine"
  T_run_IO :: "'t \<Rightarrow> 'sc \<Rightarrow> 'rc \<Rightarrow> addr \<Rightarrow> addr \<Rightarrow> ('w, 'ty, 'v) machine
                \<Rightarrow> 't \<times> ('w, 'ty, 'v) machine"

definition jobRun ::
  "('t, 'sc, 'rc, 'w, 'ty, 'v) Stage \<Rightarrow> 't \<Rightarrow> 'sc \<Rightarrow> 'rc \<Rightarrow> ('w, 'ty, 'v) machine
     \<Rightarrow> 't \<times> ('w, 'ty, 'v) machine" where
  "jobRun S jobModel sceneContext renderContext s = T_run S jobModel sceneContext renderContext s"

definition jobRunI ::
  "('t, 'sc, 'rc, 'w, 'ty, 'v) Stage \<Rightarrow> 't \<Rightarrow> 'sc \<Rightarrow> 'rc \<Rightarrow> addr \<Rightarrow> ('w, 'ty, 'v) machine
     \<Rightarrow> 't \<times> ('w, 'ty, 'v) machine" where
  "jobRunI S jobModel sceneContext renderContext input s =
     T_run_I S jobModel sceneContext renderContext input s"

definition jobRunO ::
  "('t, 'sc, 'rc, 'w, 'ty, 'v) Stage \<Rightarrow> 't \<Rightarrow> 'sc \<Rightarrow> 'rc \<Rightarrow> addr \<Rightarrow> ('w, 'ty, 'v) machine
     \<Rightarrow> 't \<times> ('w, 'ty, 'v) machine" where
  "jobRunO S jobModel sceneContext renderContext output s =
     T_run_O S jobModel sceneContext renderContext output s"

definition jobRunIO ::
  "('t, 'sc, 'rc, 'w, 'ty, 'v) Stage \<Rightarrow> 't \<Rightarrow> 'sc \<Rightarrow> 'rc \<Rightarrow> addr \<Rightarrow> addr
     \<Rightarrow> ('w, 'ty, 'v) machine \<Rightarrow> 't \<times> ('w, 'ty, 'v) machine" where
  "jobRunIO S jobModel sceneContext renderContext input output s =
     T_run_IO S jobModel sceneContext renderContext input output s"

subsection \<open>\<open>Job::Concept\<close> and its four models\<close>

text \<open>
  The four subclasses of \<open>Job::Concept\<close>, with the name of the base class, the stage
  value \<open>_data\<close>, the template arguments \<open>I\<close> and \<open>O\<close>, and the varyings \<open>_input\<close> and
  \<open>_output\<close>, in this order.
\<close>

datatype ('t, 'ty) Concept =
    Model string 't
  | ModelI string 't 'ty Varying
  | ModelO string 't 'ty Varying
  | ModelIO string 't 'ty 'ty Varying Varying

datatype Shape = NoIO | InputOnly | OutputOnly | InputOutput

fun shape_of :: "('t, 'ty) Concept \<Rightarrow> Shape" where
  "shape_of (Model n d) = NoIO"
| "shape_of (ModelI n d i inp) = InputOnly"
| "shape_of (ModelO n d ou out) = OutputOnly"
| "shape_of (ModelIO n d i ou inp out) = InputOutput"

text \<open>
  The constructors. \<open>d0\<close> is the default-constructed stage \<open>T()\<close> and \<open>init ou\<close> the
  value-initialised payload \<open>Output()\<close>; \<open>Varying(const T&)\<close> allocates.
\<close>

definition Model_new :: "'t \<Rightarrow> ('t, 'ty) Concept" where
  "Model_new d0 = Model [] d0"

definition Model_named :: "'t \<Rightarrow> string \<Rightarrow> ('t, 'ty) Concept" where
  "Model_named d0 name = Model name d0"

definition Model_data_new :: "'t \<Rightarrow> ('t, 'ty) Concept" where
  "Model_data_new d = Model [] d"

definition Model_data_named :: "'t \<Rightarrow> string \<Rightarrow> ('t, 'ty) Concept" where
  "Model_data_named d name = Model name d"

definition ModelI_input :: "'t \<Rightarrow> 'ty \<Rightarrow> Varying \<Rightarrow> ('t, 'ty) Concept" where
  "ModelI_input d0 i input = ModelI [] d0 i (Varying_copy input)"

definition ModelI_input_named :: "'t \<Rightarrow> 'ty \<Rightarrow> Varying \<Rightarrow> string \<Rightarrow> ('t, 'ty) Concept" where
  "ModelI_input_named d0 i input name = ModelI name d0 i (Varying_copy input)"

definition ModelI_data :: "'t \<Rightarrow> 'ty \<Rightarrow> ('t, 'ty) Concept" where
  "ModelI_data d i = ModelI [] d i Varying_default"

definition ModelO_new ::
  "('ty \<Rightarrow> 'v) \<Rightarrow> 't \<Rightarrow> 'ty \<Rightarrow> ('ty, 'v) heap \<Rightarrow> ('t, 'ty) Concept \<times> ('ty, 'v) heap" where
  "ModelO_new init d0 ou h =
     (case Varying_of ou (init ou) h of (out, h') \<Rightarrow> (ModelO [] d0 ou out, h'))"

definition ModelO_data ::
  "('ty \<Rightarrow> 'v) \<Rightarrow> 't \<Rightarrow> 'ty \<Rightarrow> ('ty, 'v) heap \<Rightarrow> ('t, 'ty) Concept \<times> ('ty, 'v) heap" where
  "ModelO_data init d ou h =
     (case Varying_of ou (init ou) h of (out, h') \<Rightarrow> (ModelO [] d ou out, h'))"

definition ModelIO_input ::
  "('ty \<Rightarrow> 'v) \<Rightarrow> 't \<Rightarrow> 'ty \<Rightarrow> 'ty \<Rightarrow> Varying \<Rightarrow> ('ty, 'v) heap
     \<Rightarrow> ('t, 'ty) Concept \<times> ('ty, 'v) heap" where
  "ModelIO_input init d0 i ou input h =
     (case Varying_of ou (init ou) h of
        (out, h') \<Rightarrow> (ModelIO [] d0 i ou (Varying_copy input) out, h'))"

definition ModelIO_data_output ::
  "'t \<Rightarrow> 'ty \<Rightarrow> 'ty \<Rightarrow> 'v \<Rightarrow> ('ty, 'v) heap \<Rightarrow> ('t, 'ty) Concept \<times> ('ty, 'v) heap" where
  "ModelIO_data_output d i ou output h =
     (case Varying_of ou output h of (out, h') \<Rightarrow> (ModelIO [] d i ou Varying_default out, h'))"

fun Concept_setName :: "string \<Rightarrow> ('t, 'ty) Concept \<Rightarrow> ('t, 'ty) Concept" where
  "Concept_setName name (Model n d) = Model name d"
| "Concept_setName name (ModelI n d i inp) = ModelI name d i inp"
| "Concept_setName name (ModelO n d ou out) = ModelO name d ou out"
| "Concept_setName name (ModelIO n d i ou inp out) = ModelIO name d i ou inp out"

fun Concept_getName :: "('t, 'ty) Concept \<Rightarrow> string" where
  "Concept_getName (Model n d) = n"
| "Concept_getName (ModelI n d i inp) = n"
| "Concept_getName (ModelO n d ou out) = n"
| "Concept_getName (ModelIO n d i ou inp out) = n"

fun Concept_getInput :: "('t, 'ty) Concept \<Rightarrow> Varying" where
  "Concept_getInput (Model n d) = Varying_default"
| "Concept_getInput (ModelI n d i inp) = Varying_copy inp"
| "Concept_getInput (ModelO n d ou out) = Varying_default"
| "Concept_getInput (ModelIO n d i ou inp out) = Varying_copy inp"

fun Concept_getOutput :: "('t, 'ty) Concept \<Rightarrow> Varying" where
  "Concept_getOutput (Model n d) = Varying_default"
| "Concept_getOutput (ModelI n d i inp) = Varying_default"
| "Concept_getOutput (ModelO n d ou out) = Varying_copy out"
| "Concept_getOutput (ModelIO n d i ou inp out) = Varying_copy out"

text \<open>
  \<open>setInput\<close> is a member of \<open>ModelIO\<close> only (\<open>None\<close>: the class has no such member). The
  assignment \<open>_input = input\<close> is the implicit copy assignment of \<open>Varying\<close>, which takes
  every member.
\<close>

fun ModelIO_setInput :: "Varying \<Rightarrow> ('t, 'ty) Concept \<Rightarrow> ('t, 'ty) Concept option" where
  "ModelIO_setInput input (ModelIO n d i ou inp out) = Some (ModelIO n d i ou input out)"
| "ModelIO_setInput input c = None"

text \<open>The virtual \<open>run\<close>: each model calls its own \<open>jobRun\<close> template.\<close>

fun Concept_run ::
  "('t, 'sc, 'rc, 'w, 'ty, 'v) Stage \<Rightarrow> ('t, 'ty) Concept \<Rightarrow> 'sc \<Rightarrow> 'rc \<Rightarrow> ('w, 'ty, 'v) machine
     \<Rightarrow> (('t, 'ty) Concept \<times> ('w, 'ty, 'v) machine) option" where
  "Concept_run S (Model n d) sceneContext renderContext s =
     (case jobRun S d sceneContext renderContext s of (d', s') \<Rightarrow> Some (Model n d', s'))"
| "Concept_run S (ModelI n d i inp) sceneContext renderContext s =
     (case Varying_get i inp (heap s) of
        None \<Rightarrow> None
      | Some input \<Rightarrow>
          (case jobRunI S d sceneContext renderContext input s of
             (d', s') \<Rightarrow> Some (ModelI n d' i inp, s')))"
| "Concept_run S (ModelO n d ou out) sceneContext renderContext s =
     (case Varying_edit ou out (heap s) of
        None \<Rightarrow> None
      | Some output \<Rightarrow>
          (case jobRunO S d sceneContext renderContext output s of
             (d', s') \<Rightarrow> Some (ModelO n d' ou out, s')))"
| "Concept_run S (ModelIO n d i ou inp out) sceneContext renderContext s =
     (case Varying_get i inp (heap s) of
        None \<Rightarrow> None
      | Some input \<Rightarrow>
          (case Varying_edit ou out (heap s) of
             None \<Rightarrow> None
           | Some output \<Rightarrow>
               (case jobRunIO S d sceneContext renderContext input output s of
                  (d', s') \<Rightarrow> Some (ModelIO n d' i ou inp out, s'))))"

subsection \<open>\<open>Job\<close>\<close>

text \<open>
  A \<open>Job\<close> holds a \<open>std::shared_ptr<Concept>\<close> that \<open>Job(Concept* concept)\<close> takes as it
  comes, null included. Copies of a job share the concept; nothing below looks at two
  copies of one job, so the concept is held by value. \<open>run\<close> checks the pointer;
  \<open>getName\<close>, \<open>getInput\<close> and \<open>getOutput\<close> dereference it unchecked.
\<close>

record ('t, 'ty) Job =
  j_concept :: "('t, 'ty) Concept option"

definition Job_of :: "('t, 'ty) Concept option \<Rightarrow> ('t, 'ty) Job" where
  "Job_of c = \<lparr>j_concept = c\<rparr>"

definition Job_copy :: "('t, 'ty) Job \<Rightarrow> ('t, 'ty) Job" where
  "Job_copy other = \<lparr>j_concept = j_concept other\<rparr>"

definition Job_getName :: "('t, 'ty) Job \<Rightarrow> string option" where
  "Job_getName j = map_option Concept_getName (j_concept j)"

definition Job_getInput :: "('t, 'ty) Job \<Rightarrow> Varying option" where
  "Job_getInput j = map_option Concept_getInput (j_concept j)"

definition Job_getOutput :: "('t, 'ty) Job \<Rightarrow> Varying option" where
  "Job_getOutput j = map_option Concept_getOutput (j_concept j)"

definition Job_run ::
  "('t, 'sc, 'rc, 'w, 'ty, 'v) Stage \<Rightarrow> ('t, 'ty) Job \<Rightarrow> 'sc \<Rightarrow> 'rc \<Rightarrow> ('w, 'ty, 'v) machine
     \<Rightarrow> (('t, 'ty) Job \<times> ('w, 'ty, 'v) machine) option" where
  "Job_run S j sceneContext renderContext s =
     (case j_concept j of
        None \<Rightarrow> Some (j, s)
      | Some c \<Rightarrow>
          (case Concept_run S c sceneContext renderContext s of
             None \<Rightarrow> None
           | Some (c', s') \<Rightarrow> Some (j\<lparr>j_concept := Some c'\<rparr>, s')))"

definition Job_shape :: "('t, 'ty) Job \<Rightarrow> Shape option" where
  "Job_shape j = map_option shape_of (j_concept j)"

text \<open>
  A stage that counts its calls in the world, whichever signature is called, and
  touches nothing else.
\<close>

definition tick :: "(nat, unit, unit) machine \<Rightarrow> unit \<times> (nat, unit, unit) machine" where
  "tick s = ((), s\<lparr>world := Suc (world s)\<rparr>)"

definition counting_Stage :: "(unit, unit, unit, nat, unit, unit) Stage" where
  "counting_Stage =
     \<lparr>T_run = (\<lambda>d sc rc. tick),
      T_run_I = (\<lambda>d sc rc input. tick),
      T_run_O = (\<lambda>d sc rc output. tick),
      T_run_IO = (\<lambda>d sc rc input output. tick)\<rparr>"

text \<open>
  A stage in the manner of \<open>FetchItems\<close> and \<open>CullItems\<close>: with an output only it assigns
  the value \<open>x\<close> to its output, with an input and an output it assigns what it reads
  from the input to the output, and otherwise it does nothing.
\<close>

definition writing_Stage :: "'v \<Rightarrow> ('t, 'sc, 'rc, 'w, 'ty, 'v) Stage" where
  "writing_Stage x =
     \<lparr>T_run = (\<lambda>d sc rc s. (d, s)),
      T_run_I = (\<lambda>d sc rc input s. (d, s)),
      T_run_O = (\<lambda>d sc rc output s. (d, s\<lparr>heap := assign (heap s) output x\<rparr>)),
      T_run_IO = (\<lambda>d sc rc input output s.
         (d, s\<lparr>heap := assign (heap s) output (load (heap s) input)\<rparr>))\<rparr>"

subsection \<open>\<open>ItemMaterialBucketMap\<close>\<close>

text \<open>
  \<open>class ItemMaterialBucketMap : public std::map<MaterialFilter, ItemIDs,
  MaterialFilter::Less>\<close>. A \<open>std::map\<close> is held here as the sequence of its elements in
  iteration order (from \<open>begin()\<close> to \<open>end()\<close>). The container places a new key by its
  comparison object alone: after every element whose key is \<open>Less\<close> than the new one and
  before the first whose key is not; two keys are the same key for it when neither is
  \<open>Less\<close> than the other, and then nothing is inserted. Item identifiers are a type
  parameter.
\<close>

type_synonym 'id ItemMaterialBucketMap = "(MaterialFilter \<times> 'id list) list"

definition equivalent :: "MaterialFilter \<Rightarrow> MaterialFilter \<Rightarrow> bool" where
  "equivalent a b \<longleftrightarrow> \<not> Less a b \<and> \<not> Less b a"

fun map_emplace ::
  "MaterialFilter \<Rightarrow> 'id list \<Rightarrow> 'id ItemMaterialBucketMap \<Rightarrow> 'id ItemMaterialBucketMap" where
  "map_emplace k v [] = [(k, v)]"
| "map_emplace k v ((k', v') # m) =
     (if Less k' k then (k', v') # map_emplace k v m
      else if Less k k' then (k, v) # (k', v') # m
      else (k', v') # m)"

definition map_subscript ::
  "'id ItemMaterialBucketMap \<Rightarrow> MaterialFilter \<Rightarrow> 'id ItemMaterialBucketMap" where
  "map_subscript m k = map_emplace k [] m"

definition map_erase ::
  "MaterialFilter \<Rightarrow> 'id ItemMaterialBucketMap \<Rightarrow> 'id ItemMaterialBucketMap" where
  "map_erase k m = filter (\<lambda>e. \<not> equivalent k (fst e)) m"

definition map_assign ::
  "MaterialFilter \<Rightarrow> 'id list \<Rightarrow> 'id ItemMaterialBucketMap \<Rightarrow> 'id ItemMaterialBucketMap" where
  "map_assign k v m = map (\<lambda>e. if equivalent k (fst e) then (fst e, v) else e) m"

text \<open>
  Every bucket map there can be: the empty one of the constructor, and what the
  operations of \<open>std::map\<close> make of a bucket map (an insertion, an erasure, a write to
  the bucket of a key; keys are const in the container). The two member functions of
  the class are declared in the header and defined elsewhere; as members of a derived
  class they reach the container through these operations only.
\<close>

inductive bucket_map :: "'id ItemMaterialBucketMap \<Rightarrow> bool" where
  bucket_map_empty: "bucket_map []"
| bucket_map_emplace: "bucket_map m \<Longrightarrow> bucket_map (map_emplace k v m)"
| bucket_map_erase: "bucket_map m \<Longrightarrow> bucket_map (map_erase k m)"
| bucket_map_assign: "bucket_map m \<Longrightarrow> bucket_map (map_assign k v m)"

text \<open>
  Modelled from the spec: the bodies of \<open>ItemMaterialBucketMap::insert\<close> and
  \<open>ItemMaterialBucketMap::allocateStandardMaterialBuckets\<close> are missing (the header
  declares them). \<open>insert\<close> scans the buckets in the map's order and appends the
  identifier to the first bucket whose filter matches the key, dropping the item if
  none does; \<open>allocateStandardMaterialBuckets\<close> pre-inserts the canonical filter
  (opaque with albedo) with an empty list.
\<close>

fun ItemMaterialBucketMap_insert ::
  "'id \<Rightarrow> MaterialKey \<Rightarrow> 'id ItemMaterialBucketMap \<Rightarrow> 'id ItemMaterialBucketMap" where
  "ItemMaterialBucketMap_insert ident key [] = []"
| "ItemMaterialBucketMap_insert ident key ((f, ids) # m) =
     (if test f key then (f, ids @ [ident]) # m
      else (f, ids) # ItemMaterialBucketMap_insert ident key m)"

definition allocateStandardMaterialBuckets ::
  "'id ItemMaterialBucketMap \<Rightarrow> error + 'id ItemMaterialBucketMap" where
  "allocateStandardMaterialBuckets m = and_then opaqueAlbedo (\<lambda>f. Inr (map_subscript m f))"

section \<open>Properties of keys and filters\<close>

lemma opaqueAlbedo_eq: "opaqueAlbedo = Inr \<lparr>f_value = 2, f_mask = 18\<rparr>"
  by (simp add: opaqueAlbedo_def withAlbedo_def withoutTransparent_def builder_with_def
      builder_without_def and_then_def bitset_set_def bitset_reset_def FilterBuilder_new_def
      FilterBuilder_build_def MaterialFilter_of_def)

lemma test_bitwise:
  "test f key \<longleftrightarrow> (\<forall>n. bit (f_mask f) n \<longrightarrow> bit (flags key) n = bit (f_value f) n)"
proof
  assume "test f key"
  then have eq: "flags key AND f_mask f = f_value f AND f_mask f"
    by (simp add: test_def)
  show "\<forall>n. bit (f_mask f) n \<longrightarrow> bit (flags key) n = bit (f_value f) n"
  proof (intro allI impI)
    fix n
    assume m: "bit (f_mask f) n"
    have "bit (flags key AND f_mask f) n = bit (f_value f AND f_mask f) n"
      by (simp only: eq)
    with m show "bit (flags key) n = bit (f_value f) n"
      by (simp add: bit_and_iff)
  qed
next
  assume h: "\<forall>n. bit (f_mask f) n \<longrightarrow> bit (flags key) n = bit (f_value f) n"
  have "flags key AND f_mask f = f_value f AND f_mask f"
  proof (rule bit_eqI)
    fix n
    show "bit (flags key AND f_mask f) n = bit (f_value f AND f_mask f) n"
      using h by (auto simp add: bit_and_iff)
  qed
  then show "test f key"
    by (simp add: test_def)
qed

lemma key_defs:
  "isAlbedo k = Some (bit (flags k) 1)" "isTransparent k = Some (bit (flags k) 4)"
  "setTransparent k v = Inr (k\<lparr>flags := (if v then set_bit 4 (flags k) else unset_bit 4 (flags k))\<rparr>)"
  by (simp_all add: isAlbedo_def isTransparent_def setTransparent_def bitset_index_def flags_set_def bitset_set_def)

text \<open>
  C1. A key passes \<open>test\<close> exactly when its flags and the filter's value agree under
  the mask: on every bit set in the mask the key's bit equals the value's bit, and
  bits outside the mask do not matter. For the filter \<open>opaqueAlbedo\<close> (albedo required,
  transparency excluded), every key with the albedo bit set and the transparent bit
  clear passes, and the same key with the transparent bit set fails.
\<close>

theorem MaterialFilter_test_matches:
  "(test f key \<longleftrightarrow> (flags key AND f_mask f) = (f_value f AND f_mask f)) \<and>
   (test f key \<longleftrightarrow> (\<forall>n. bit (f_mask f) n \<longrightarrow> bit (flags key) n = bit (f_value f) n)) \<and>
   (\<exists>fo. opaqueAlbedo = Inr fo \<and>
      (isAlbedo k = Some True \<and> isTransparent k = Some False \<longrightarrow>
         test fo k \<and> (\<exists>k'. setTransparent k True = Inr k' \<and> \<not> test fo k')))"
proof (intro conjI)
  show "test f key \<longleftrightarrow> (flags key AND f_mask f) = (f_value f AND f_mask f)"
    by (simp add: test_def)
  show "test f key \<longleftrightarrow> (\<forall>n. bit (f_mask f) n \<longrightarrow> bit (flags key) n = bit (f_value f) n)"
    by (rule test_bitwise)
  let ?fo = "\<lparr>f_value = 2, f_mask = 18\<rparr>"
  have m: "bit (18 :: Flags) n \<longleftrightarrow> n = 1 \<or> n = 4" for n
  proof -
    have "(18 :: Flags) = set_bit 4 (set_bit 1 0)"
      by simp
    then show ?thesis
      by (simp only: bit_set_bit_iff) (auto simp add: bit_set_bit_iff)
  qed
  have v: "bit (2 :: Flags) n \<longleftrightarrow> n = 1" for n
  proof -
    have "(2 :: Flags) = set_bit 1 0"
      by simp
    then show ?thesis
      by (simp only: bit_set_bit_iff) (auto simp add: bit_set_bit_iff)
  qed
  have t: "test ?fo x \<longleftrightarrow> bit (flags x) 1 \<and> \<not> bit (flags x) 4" for x :: MaterialKey
  proof -
    have "test ?fo x \<longleftrightarrow> (\<forall>n. n = 1 \<or> n = 4 \<longrightarrow> bit (flags x) n = (n = 1))"
      by (simp only: test_bitwise MaterialFilter.simps m v)
    also have "\<dots> \<longleftrightarrow> bit (flags x) 1 \<and> \<not> bit (flags x) 4"
      by auto
    finally show ?thesis .
  qed
  have "test ?fo k \<and> (\<exists>k'. setTransparent k True = Inr k' \<and> \<not> test ?fo k')"
    if "isAlbedo k = Some True" "isTransparent k = Some False"
    using that by (simp add: key_defs t bit_set_bit_iff)
  then show "\<exists>fo. opaqueAlbedo = Inr fo \<and>
      (isAlbedo k = Some True \<and> isTransparent k = Some False \<longrightarrow>
         test fo k \<and> (\<exists>k'. setTransparent k True = Inr k' \<and> \<not> test fo k'))"
    by (simp add: opaqueAlbedo_eq)
qed


theorem MaterialFilter_test_matches_witness:
  "isAlbedo (MaterialKey_of 2) = Some True \<and> isTransparent (MaterialKey_of 2) = Some False \<and>
   opaqueAlbedo = Inr (MaterialFilter_of 2 18) \<and>
   test (MaterialFilter_of 2 18) (MaterialKey_of 2) \<and>
   setTransparent (MaterialKey_of 2) True = Inr (MaterialKey_of 18) \<and>
   \<not> test (MaterialFilter_of 2 18) (MaterialKey_of 18) \<and>
   bit (f_mask (MaterialFilter_of 2 18)) 1 \<and>
   bit (flags (MaterialKey_of 2)) 1 = bit (f_value (MaterialFilter_of 2 18)) 1"
  using MaterialFilter_test_matches [of "MaterialFilter_of 2 18" "MaterialKey_of 2" "MaterialKey_of 2"]
  by (simp add: MaterialKey_of_def MaterialFilter_of_def key_defs opaqueAlbedo_eq test_def)

lemma Less_lex:
  "Less a b \<longleftrightarrow>
     unat (f_value a) < unat (f_value b) \<or>
     (f_value a = f_value b \<and> unat (f_mask a) < unat (f_mask b))"
  by (auto simp add: Less_def to_ulong_def word_unat_eq_iff)

lemma Less_irrefl: "\<not> Less a a"
  by (simp add: Less_lex)

lemma Less_trans: "Less a b \<Longrightarrow> Less b c \<Longrightarrow> Less a c"
  by (auto simp add: Less_lex)

lemma Less_asym: "Less a b \<Longrightarrow> \<not> Less b a"
  by (auto simp add: Less_lex)

lemma Less_total: "\<not> Less a b \<Longrightarrow> \<not> Less b a \<Longrightarrow> a = b"
  by (cases a, cases b) (auto simp add: Less_lex word_unat_eq_iff)

lemma equivalent_eq: "equivalent a b \<longleftrightarrow> a = b"
  using Less_total Less_irrefl by (auto simp add: equivalent_def)

text \<open>
  C2. \<open>MaterialFilter::Less\<close> compares the value bit vectors as unsigned integers and,
  when they are equal, the mask bit vectors as unsigned integers. It is a strict weak
  order: irreflexive, transitive, asymmetric, and two filters of which neither is less
  than the other have the same value and mask (so being equivalent is transitive). The
  filter with value 0b01 and mask 0b01 comes strictly before the one with value 0b10 and
  mask 0b11.
\<close>

theorem Less_strict_weak_order:
  "(Less a b \<longleftrightarrow>
      to_ulong (f_value a) < to_ulong (f_value b) \<or>
      (to_ulong (f_value a) = to_ulong (f_value b) \<and> to_ulong (f_mask a) < to_ulong (f_mask b))) \<and>
   \<not> Less a a \<and>
   (Less a b \<and> Less b c \<longrightarrow> Less a c) \<and>
   (Less a b \<longrightarrow> \<not> Less b a) \<and>
   (\<not> Less p q \<and> \<not> Less q p \<longrightarrow> f_value p = f_value q \<and> f_mask p = f_mask q \<and> p = q) \<and>
   (equivalent p q \<and> equivalent q r \<longrightarrow> equivalent p r) \<and>
   Less (MaterialFilter_of 1 1) (MaterialFilter_of 2 3)"
proof (intro conjI)
  show "Less a b \<longleftrightarrow>
      to_ulong (f_value a) < to_ulong (f_value b) \<or>
      (to_ulong (f_value a) = to_ulong (f_value b) \<and> to_ulong (f_mask a) < to_ulong (f_mask b))"
    by (auto simp add: Less_def)
  show "\<not> Less a a"
    by (rule Less_irrefl)
  show "Less a b \<and> Less b c \<longrightarrow> Less a c"
    by (blast intro: Less_trans)
  show "Less a b \<longrightarrow> \<not> Less b a"
    by (blast dest: Less_asym)
  show "\<not> Less p q \<and> \<not> Less q p \<longrightarrow> f_value p = f_value q \<and> f_mask p = f_mask q \<and> p = q"
    by (blast dest: Less_total)
  show "equivalent p q \<and> equivalent q r \<longrightarrow> equivalent p r"
    by (simp add: equivalent_eq)
  show "Less (MaterialFilter_of 1 1) (MaterialFilter_of 2 3)"
    by (simp add: Less_def to_ulong_def MaterialFilter_of_def)
qed

theorem Less_strict_weak_order_witness:
  "Less (MaterialFilter_of 1 1) (MaterialFilter_of 2 3) \<and>
   Less (MaterialFilter_of 2 3) (MaterialFilter_of 2 7) \<and>
   Less (MaterialFilter_of 1 1) (MaterialFilter_of 2 7) \<and>
   \<not> Less (MaterialFilter_of 2 3) (MaterialFilter_of 1 1) \<and>
   \<not> Less (MaterialFilter_of 5 4) (MaterialFilter_of 5 4) \<and>
   equivalent (MaterialFilter_of 5 4) (MaterialFilter_of 5 4)"
  using Less_strict_weak_order [of "MaterialFilter_of 1 1" "MaterialFilter_of 2 3"
      "MaterialFilter_of 2 7" "MaterialFilter_of 5 4" "MaterialFilter_of 5 4" "MaterialFilter_of 5 4"]
  by (simp add: Less_def to_ulong_def MaterialFilter_of_def equivalent_def)

text \<open>
  C10. For every key, \<open>isOpaque\<close> is the negation of \<open>isTransparent\<close>: both read the
  transparency bit, and exactly one of them holds.
\<close>

theorem isOpaque_complement:
  "(\<exists>b. isTransparent k = Some b \<and> isOpaque k = Some (\<not> b)) \<and>
   (isOpaque k = Some True) \<noteq> (isTransparent k = Some True)"
  by (simp add: isTransparent_def isOpaque_def bitset_index_def)

lemma channel_bit_range:
  "MapChannel_val c < MapChannel_val NUM_MAP_CHANNELS \<Longrightarrow> channel_bit c < FlagBit_val NUM_FLAGS"
  by (simp add: channel_bit_def)

lemma channel_bit_inj: "channel_bit c = channel_bit c' \<Longrightarrow> c = c'"
  by (cases c; cases c') (simp_all add: channel_bit_def)

lemma flags_set_in_range:
  "pos < FlagBit_val NUM_FLAGS \<Longrightarrow>
     flags_set k pos v = Inr (k\<lparr>flags := (if v then set_bit pos (flags k) else unset_bit pos (flags k))\<rparr>)"
  by (simp add: flags_set_def bitset_set_def)

lemma flags_set_bits:
  assumes "pos < FlagBit_val NUM_FLAGS" and "flags_set k pos v = Inr k'"
  shows "bit (flags k') n = (if n = pos then v else bit (flags k) n)"
proof -
  from assms have k': "k' = k\<lparr>flags := (if v then set_bit pos (flags k) else unset_bit pos (flags k))\<rparr>"
    by (simp add: flags_set_in_range)
  from assms(1) have "pos < LENGTH(12)"
    by simp
  then show ?thesis
    by (cases v) (auto simp add: k' bit_set_bit_iff bit_unset_bit_iff)
qed

text \<open>
  C6. For every key and every map channel within the declared channel count,
  \<open>setMapChannel(channel, true)\<close> succeeds, \<open>isMapChannel(channel)\<close> is true afterwards, no
  flag bit other than bit \<open>EMISSIVE_MAP_BIT + channel\<close> has changed, and every other
  channel reads as before.
\<close>

theorem setMapChannel_isMapChannel:
  "MapChannel_val c < MapChannel_val NUM_MAP_CHANNELS \<Longrightarrow>
     \<exists>k'. setMapChannel k c True = Inr k' \<and> isMapChannel k' c = Some True \<and>
       (\<forall>n. n \<noteq> FlagBit_val EMISSIVE_MAP_BIT + MapChannel_val c \<longrightarrow> bit (flags k') n = bit (flags k) n) \<and>
       (\<forall>c'. c' \<noteq> c \<longrightarrow> isMapChannel k' c' = isMapChannel k c')"
proof -
  assume r: "MapChannel_val c < MapChannel_val NUM_MAP_CHANNELS"
  then have p: "channel_bit c < FlagBit_val NUM_FLAGS"
    by (rule channel_bit_range)
  define k' where "k' = k\<lparr>flags := set_bit (channel_bit c) (flags k)\<rparr>"
  have s: "setMapChannel k c True = Inr k'"
    using p by (simp add: setMapChannel_def flags_set_in_range k'_def)
  then have b: "bit (flags k') n = (if n = channel_bit c then True else bit (flags k) n)" for n
    using flags_set_bits [OF p, of k True k' n] by (simp add: setMapChannel_def)
  have "isMapChannel k' c = Some True"
    using p b by (simp add: isMapChannel_def bitset_index_def)
  moreover have "\<forall>n. n \<noteq> FlagBit_val EMISSIVE_MAP_BIT + MapChannel_val c \<longrightarrow> bit (flags k') n = bit (flags k) n"
    using b by (simp add: channel_bit_def)
  moreover have "\<forall>c'. c' \<noteq> c \<longrightarrow> isMapChannel k' c' = isMapChannel k c'"
    using b channel_bit_inj by (auto simp add: isMapChannel_def bitset_index_def)
  ultimately show ?thesis using s by blast
qed

theorem setMapChannel_isMapChannel_witness:
  "MapChannel_val NORMAL_MAP < MapChannel_val NUM_MAP_CHANNELS \<and>
   setMapChannel (MaterialKey_of 2) NORMAL_MAP True = Inr (MaterialKey_of 1026) \<and>
   isMapChannel (MaterialKey_of 1026) NORMAL_MAP = Some True \<and>
   isMapChannel (MaterialKey_of 1026) ALBEDO_MAP = isMapChannel (MaterialKey_of 2) ALBEDO_MAP \<and>
   bit (flags (MaterialKey_of 1026)) 1 = bit (flags (MaterialKey_of 2)) 1"
  using setMapChannel_isMapChannel [of NORMAL_MAP "MaterialKey_of 2"]
  by (simp add: setMapChannel_def isMapChannel_def channel_bit_def flags_set_def bitset_set_def
      bitset_index_def MaterialKey_of_def)

text \<open>
  C7. For a channel within the declared channel count, the bit \<open>EMISSIVE_MAP_BIT +
  channel\<close> lies in the range of the map bits, below \<open>NUM_FLAGS\<close>, and \<open>isMapChannel\<close> and
  \<open>setMapChannel\<close> address that bit and return. Distinct channels have distinct bits. A
  channel outside the declared count addresses no bit of the key: its index is not
  below \<open>NUM_FLAGS\<close>, the read of \<open>isMapChannel\<close> is undefined, and \<open>setMapChannel\<close> ends in
  the \<open>out_of_range\<close> exception of the bitset.
\<close>

theorem channel_bit_mapping:
  "(MapChannel_val c < MapChannel_val NUM_MAP_CHANNELS \<longrightarrow>
      FlagBit_val EMISSIVE_MAP_BIT \<le> channel_bit c \<and> channel_bit c < FlagBit_val NUM_FLAGS \<and>
      isMapChannel k c = Some (bit (flags k) (channel_bit c)) \<and>
      (\<exists>k'. setMapChannel k c v = Inr k')) \<and>
   (c1 \<noteq> c2 \<longrightarrow> channel_bit c1 \<noteq> channel_bit c2) \<and>
   (\<not> MapChannel_val c3 < MapChannel_val NUM_MAP_CHANNELS \<longrightarrow>
      \<not> channel_bit c3 < FlagBit_val NUM_FLAGS \<and>
      isMapChannel k c3 = None \<and> setMapChannel k c3 v = Inl out_of_range)"
proof (intro conjI impI)
  assume r: "MapChannel_val c < MapChannel_val NUM_MAP_CHANNELS"
  then have p: "channel_bit c < FlagBit_val NUM_FLAGS"
    by (rule channel_bit_range)
  show "FlagBit_val EMISSIVE_MAP_BIT \<le> channel_bit c"
    by (simp add: channel_bit_def)
  show "channel_bit c < FlagBit_val NUM_FLAGS"
    by (rule p)
  show "isMapChannel k c = Some (bit (flags k) (channel_bit c))"
    using p by (simp add: isMapChannel_def bitset_index_def)
  show "\<exists>k'. setMapChannel k c v = Inr k'"
    using p by (simp add: setMapChannel_def flags_set_in_range)
next
  assume "c1 \<noteq> c2"
  then show "channel_bit c1 \<noteq> channel_bit c2"
    by (blast dest: channel_bit_inj)
next
  assume "\<not> MapChannel_val c3 < MapChannel_val NUM_MAP_CHANNELS"
  then have c3: "c3 = NUM_MAP_CHANNELS"
    by (cases c3) simp_all
  show "\<not> channel_bit c3 < FlagBit_val NUM_FLAGS"
    by (simp add: c3 channel_bit_def)
  show "isMapChannel k c3 = None"
    by (simp add: c3 isMapChannel_def bitset_index_def channel_bit_def)
  show "setMapChannel k c3 v = Inl out_of_range"
    by (simp add: c3 setMapChannel_def flags_set_def bitset_set_def channel_bit_def)
qed

theorem channel_bit_mapping_witness:
  "MapChannel_val LIGHTMAP_MAP < MapChannel_val NUM_MAP_CHANNELS \<and>
   channel_bit LIGHTMAP_MAP = 11 \<and>
   isMapChannel (MaterialKey_of 2048) LIGHTMAP_MAP = Some True \<and>
   setMapChannel (MaterialKey_of 2048) LIGHTMAP_MAP False = Inr (MaterialKey_of 0) \<and>
   EMISSIVE_MAP \<noteq> ALBEDO_MAP \<and> channel_bit EMISSIVE_MAP \<noteq> channel_bit ALBEDO_MAP \<and>
   \<not> MapChannel_val NUM_MAP_CHANNELS < MapChannel_val NUM_MAP_CHANNELS \<and>
   channel_bit NUM_MAP_CHANNELS = 12 \<and>
   isMapChannel (MaterialKey_of 2048) NUM_MAP_CHANNELS = None \<and>
   setMapChannel (MaterialKey_of 2048) NUM_MAP_CHANNELS False = Inl out_of_range"
  using channel_bit_mapping [of LIGHTMAP_MAP "MaterialKey_of 2048" False EMISSIVE_MAP ALBEDO_MAP
      NUM_MAP_CHANNELS]
  by (simp add: setMapChannel_def isMapChannel_def channel_bit_def flags_set_def bitset_set_def
      bitset_index_def MaterialKey_of_def)

text \<open>
  C9, as stated, fails for \<open>MaterialKey\<close>: \<open>setEmissive(true)\<close> on a default-constructed
  key changes its flags from 0 to 1.
\<close>

theorem MaterialKey_setter_changes_flags:
  "KeyOps_run MaterialKey_default [SetEmissive True] = Some (Inr (MaterialKey_of 1)) \<and>
   flags (MaterialKey_of 1) \<noteq> flags MaterialKey_default"
  by (simp add: MaterialKey_default_def MaterialKey_of_def setEmissive_def flags_set_def
      bitset_set_def)

lemma FilterOps_run_id: "FilterOps_run f xs = f"
proof (induction xs)
  case Nil
  then show ?case by simp
next
  case (Cons x xs)
  then show ?case by (cases x) simp_all
qed

lemma const_op_apply:
  assumes "is_const_op x" and "x \<noteq> IsMapChannel NUM_MAP_CHANNELS"
  shows "KeyOp_apply k x = Some (Inr k)"
proof (cases x)
  case (IsMapChannel c)
  with assms(2) have "channel_bit c < FlagBit_val NUM_FLAGS"
    by (cases c) (simp_all add: channel_bit_def)
  then show ?thesis
    by (simp add: IsMapChannel const_call_def isMapChannel_def bitset_index_def)
qed (use assms(1) in \<open>simp_all add: const_call_def bitset_index_def isEmissive_def isEmissiveMap_def
      isAlbedo_def isAlbedoMap_def isMetallic_def isMetallicMap_def isGloss_def isGlossMap_def
      isTransparent_def isOpaque_def isTransparentMap_def isNormalMap_def isLightmapMap_def\<close>)

lemma const_ops_run:
  "\<forall>x \<in> set xs. is_const_op x \<and> x \<noteq> IsMapChannel NUM_MAP_CHANNELS \<Longrightarrow>
     KeyOps_run k xs = Some (Inr k)"
  by (induction xs) (simp_all add: const_op_apply)

lemma const_call_Inr: "const_call k r = Some (Inr k') \<Longrightarrow> k' = k"
  by (cases r) (simp_all add: const_call_def)

lemma flags_set_effect:
  assumes "pos < FlagBit_val NUM_FLAGS"
  shows "\<exists>k'. flags_set k pos v = Inr k' \<and>
    (\<forall>n. bit (flags k') n = (if n = pos then v else bit (flags k) n))"
proof -
  from assms obtain k' where s: "flags_set k pos v = Inr k'"
    by (simp add: flags_set_in_range)
  from flags_set_bits [OF assms s] s show ?thesis
    by blast
qed

text \<open>
  C9, amended. A \<open>MaterialFilter\<close> is immutable after construction: \<open>test\<close> and the
  comparison by \<open>Less\<close> are const, so after every sequence of them the value and mask are
  those given to the constructor, and \<open>test\<close> still answers by them. A \<open>MaterialKey\<close> is
  not: it is left unchanged by every sequence of its const queries (\<open>is...\<close>,
  \<open>isMapChannel\<close> of a declared channel), but each \<open>set...\<close> function returns the key
  with the one bit it names set to the given value and every other bit kept, and
  \<open>setMapChannel\<close> of a declared channel does so for bit \<open>EMISSIVE_MAP_BIT + channel\<close>.
\<close>

theorem filter_immutable_key_const_ops:
  "FilterOps_run f fops = f \<and>
   f_value (FilterOps_run (MaterialFilter_of fv fm) fops) = fv \<and>
   f_mask (FilterOps_run (MaterialFilter_of fv fm) fops) = fm \<and>
   (snd (FilterOp_apply (FilterOps_run (MaterialFilter_of fv fm) fops) (Test key)) \<longleftrightarrow>
      (flags key AND fm) = (fv AND fm)) \<and>
   ((\<forall>x \<in> set kops. is_const_op x \<and> x \<noteq> IsMapChannel NUM_MAP_CHANNELS) \<longrightarrow>
      KeyOps_run k kops = Some (Inr k)) \<and>
   (KeyOp_apply k x = Some (Inr kc) \<and> is_const_op x \<longrightarrow> kc = k) \<and>
   (\<exists>k'. setEmissive k v = Inr k' \<and>
      (\<forall>n. bit (flags k') n = (if n = FlagBit_val EMISSIVE_VAL_BIT then v else bit (flags k) n))) \<and>
   (\<exists>k'. setEmissiveMap k v = Inr k' \<and>
      (\<forall>n. bit (flags k') n = (if n = FlagBit_val EMISSIVE_MAP_BIT then v else bit (flags k) n))) \<and>
   (\<exists>k'. setAlbedo k v = Inr k' \<and>
      (\<forall>n. bit (flags k') n = (if n = FlagBit_val ALBEDO_VAL_BIT then v else bit (flags k) n))) \<and>
   (\<exists>k'. setAlbedoMap k v = Inr k' \<and>
      (\<forall>n. bit (flags k') n = (if n = FlagBit_val ALBEDO_MAP_BIT then v else bit (flags k) n))) \<and>
   (\<exists>k'. setMetallic k v = Inr k' \<and>
      (\<forall>n. bit (flags k') n = (if n = FlagBit_val METALLIC_VAL_BIT then v else bit (flags k) n))) \<and>
   (\<exists>k'. setMetallicMap k v = Inr k' \<and>
      (\<forall>n. bit (flags k') n = (if n = FlagBit_val METALLIC_MAP_BIT then v else bit (flags k) n))) \<and>
   (\<exists>k'. setGloss k v = Inr k' \<and>
      (\<forall>n. bit (flags k') n = (if n = FlagBit_val GLOSS_VAL_BIT then v else bit (flags k) n))) \<and>
   (\<exists>k'. setGlossMap k v = Inr k' \<and>
      (\<forall>n. bit (flags k') n = (if n = FlagBit_val GLOSS_MAP_BIT then v else bit (flags k) n))) \<and>
   (\<exists>k'. setTransparent k v = Inr k' \<and>
      (\<forall>n. bit (flags k') n = (if n = FlagBit_val TRANSPARENT_VAL_BIT then v else bit (flags k) n))) \<and>
   (\<exists>k'. setTransparentMap k v = Inr k' \<and>
      (\<forall>n. bit (flags k') n = (if n = FlagBit_val TRANSPARENT_MAP_BIT then v else bit (flags k) n))) \<and>
   (\<exists>k'. setNormalMap k v = Inr k' \<and>
      (\<forall>n. bit (flags k') n = (if n = FlagBit_val NORMAL_MAP_BIT then v else bit (flags k) n))) \<and>
   (\<exists>k'. setLightmapMap k v = Inr k' \<and>
      (\<forall>n. bit (flags k') n = (if n = FlagBit_val LIGHTMAP_MAP_BIT then v else bit (flags k) n))) \<and>
   (MapChannel_val c < MapChannel_val NUM_MAP_CHANNELS \<longrightarrow>
      (\<exists>k'. setMapChannel k c v = Inr k' \<and>
         (\<forall>n. bit (flags k') n =
            (if n = FlagBit_val EMISSIVE_MAP_BIT + MapChannel_val c then v else bit (flags k) n))))"
proof -
  have p_run: "FilterOps_run f fops = f"
    by (rule FilterOps_run_id)
  have p_value: "f_value (FilterOps_run (MaterialFilter_of fv fm) fops) = fv"
    by (simp add: FilterOps_run_id MaterialFilter_of_def)
  have p_mask: "f_mask (FilterOps_run (MaterialFilter_of fv fm) fops) = fm"
    by (simp add: FilterOps_run_id MaterialFilter_of_def)
  have p_test: "snd (FilterOp_apply (FilterOps_run (MaterialFilter_of fv fm) fops) (Test key)) \<longleftrightarrow>
        (flags key AND fm) = (fv AND fm)"
    by (simp add: FilterOps_run_id MaterialFilter_of_def test_def)
  have p_const_run: "(\<forall>x \<in> set kops. is_const_op x \<and> x \<noteq> IsMapChannel NUM_MAP_CHANNELS) \<longrightarrow>
        KeyOps_run k kops = Some (Inr k)"
    by (blast intro: const_ops_run)
  have p_const: "KeyOp_apply k x = Some (Inr kc) \<and> is_const_op x \<longrightarrow> kc = k"
  proof
    assume "KeyOp_apply k x = Some (Inr kc) \<and> is_const_op x"
    then show "kc = k"
      by (cases x) (auto dest: const_call_Inr)
  qed
  have p_setEmissive: "\<exists>k'. setEmissive k v = Inr k' \<and>
        (\<forall>n. bit (flags k') n = (if n = FlagBit_val EMISSIVE_VAL_BIT then v else bit (flags k) n))"
    unfolding setEmissive_def by (rule flags_set_effect) simp
  have p_setEmissiveMap: "\<exists>k'. setEmissiveMap k v = Inr k' \<and>
        (\<forall>n. bit (flags k') n = (if n = FlagBit_val EMISSIVE_MAP_BIT then v else bit (flags k) n))"
    unfolding setEmissiveMap_def by (rule flags_set_effect) simp
  have p_setAlbedo: "\<exists>k'. setAlbedo k v = Inr k' \<and>
        (\<forall>n. bit (flags k') n = (if n = FlagBit_val ALBEDO_VAL_BIT then v else bit (flags k) n))"
    unfolding setAlbedo_def by (rule flags_set_effect) simp
  have p_setAlbedoMap: "\<exists>k'. setAlbedoMap k v = Inr k' \<and>
        (\<forall>n. bit (flags k') n = (if n = FlagBit_val ALBEDO_MAP_BIT then v else bit (flags k) n))"
    unfolding setAlbedoMap_def by (rule flags_set_effect) simp
  have p_setMetallic: "\<exists>k'. setMetallic k v = Inr k' \<and>
        (\<forall>n. bit (flags k') n = (if n = FlagBit_val METALLIC_VAL_BIT then v else bit (flags k) n))"
    unfolding setMetallic_def by (rule flags_set_effect) simp
  have p_setMetallicMap: "\<exists>k'. setMetallicMap k v = Inr k' \<and>
        (\<forall>n. bit (flags k') n = (if n = FlagBit_val METALLIC_MAP_BIT then v else bit (flags k) n))"
    unfolding setMetallicMap_def by (rule flags_set_effect) simp
  have p_setGloss: "\<exists>k'. setGloss k v = Inr k' \<and>
        (\<forall>n. bit (flags k') n = (if n = FlagBit_val GLOSS_VAL_BIT then v else bit (flags k) n))"
    unfolding setGloss_def by (rule flags_set_effect) simp
  have p_setGlossMap: "\<exists>k'. setGlossMap k v = Inr k' \<and>
        (\<forall>n. bit (flags k') n = (if n = FlagBit_val GLOSS_MAP_BIT then v else bit (flags k) n))"
    unfolding setGlossMap_def by (rule flags_set_effect) simp
  have p_setTransparent: "\<exists>k'. setTransparent k v = Inr k' \<and>
        (\<forall>n. bit (flags k') n = (if n = FlagBit_val TRANSPARENT_VAL_BIT then v else bit (flags k) n))"
    unfolding setTransparent_def by (rule flags_set_effect) simp
  have p_setTransparentMap: "\<exists>k'. setTransparentMap k v = Inr k' \<and>
        (\<forall>n. bit (flags k') n = (if n = FlagBit_val TRANSPARENT_MAP_BIT then v else bit (flags k) n))"
    unfolding setTransparentMap_def by (rule flags_set_effect) simp
  have p_setNormalMap: "\<exists>k'. setNormalMap k v = Inr k' \<and>
        (\<forall>n. bit (flags k') n = (if n = FlagBit_val NORMAL_MAP_BIT then v else bit (flags k) n))"
    unfolding setNormalMap_def by (rule flags_set_effect) simp
  have p_setLightmapMap: "\<exists>k'. setLightmapMap k v = Inr k' \<and>
        (\<forall>n. bit (flags k') n = (if n = FlagBit_val LIGHTMAP_MAP_BIT then v else bit (flags k) n))"
    unfolding setLightmapMap_def by (rule flags_set_effect) simp
  have p_setMapChannel: "MapChannel_val c < MapChannel_val NUM_MAP_CHANNELS \<longrightarrow>
      (\<exists>k'. setMapChannel k c v = Inr k' \<and>
         (\<forall>n. bit (flags k') n =
            (if n = FlagBit_val EMISSIVE_MAP_BIT + MapChannel_val c then v else bit (flags k) n)))"
  proof
    assume "MapChannel_val c < MapChannel_val NUM_MAP_CHANNELS"
    then have "channel_bit c < FlagBit_val NUM_FLAGS"
      by (rule channel_bit_range)
    from flags_set_effect [OF this, of k v] show "\<exists>k'. setMapChannel k c v = Inr k' \<and>
         (\<forall>n. bit (flags k') n =
            (if n = FlagBit_val EMISSIVE_MAP_BIT + MapChannel_val c then v else bit (flags k) n))"
      by (simp only: setMapChannel_def channel_bit_def)
  qed
  from p_run p_value p_mask p_test p_const_run p_const p_setEmissive p_setEmissiveMap p_setAlbedo p_setAlbedoMap p_setMetallic p_setMetallicMap p_setGloss p_setGlossMap p_setTransparent p_setTransparentMap p_setNormalMap p_setLightmapMap p_setMapChannel
  show ?thesis
    by (intro conjI)
qed

theorem filter_immutable_key_const_ops_witness:
  "FilterOps_run (MaterialFilter_of 2 18) [Test (MaterialKey_of 2), LessThan (MaterialFilter_of 1 1)]
     = MaterialFilter_of 2 18 \<and>
   snd (FilterOp_apply
      (FilterOps_run (MaterialFilter_of 2 18) [Test (MaterialKey_of 2), LessThan (MaterialFilter_of 1 1)])
      (Test (MaterialKey_of 2))) \<and>
   is_const_op IsAlbedo \<and> is_const_op IsOpaque \<and> is_const_op (IsMapChannel NORMAL_MAP) \<and>
   IsMapChannel NORMAL_MAP \<noteq> IsMapChannel NUM_MAP_CHANNELS \<and>
   KeyOps_run (MaterialKey_of 2) [IsAlbedo, IsOpaque, IsMapChannel NORMAL_MAP]
     = Some (Inr (MaterialKey_of 2)) \<and>
   KeyOp_apply (MaterialKey_of 2) IsGloss = Some (Inr (MaterialKey_of 2)) \<and> is_const_op IsGloss \<and>
   setGloss (MaterialKey_of 2) True = Inr (MaterialKey_of 10) \<and>
   MapChannel_val NORMAL_MAP < MapChannel_val NUM_MAP_CHANNELS \<and>
   setMapChannel (MaterialKey_of 2) NORMAL_MAP True = Inr (MaterialKey_of 1026)"
  using filter_immutable_key_const_ops [where f = "MaterialFilter_of 2 18"
      and fops = "[Test (MaterialKey_of 2), LessThan (MaterialFilter_of 1 1)]"
      and fv = 2 and fm = 18 and key = "MaterialKey_of 2"
      and kops = "[IsAlbedo, IsOpaque, IsMapChannel NORMAL_MAP]"
      and k = "MaterialKey_of 2" and x = IsGloss and kc = "MaterialKey_of 2"
      and v = True and c = NORMAL_MAP]
  by (simp add: MaterialKey_of_def MaterialFilter_of_def test_def setGloss_def isGloss_def
      setMapChannel_def channel_bit_def const_call_def flags_set_def bitset_set_def
      bitset_index_def)

section \<open>Properties of the bucket map\<close>

lemma set_map_emplace: "(a, b) \<in> set (map_emplace k v m) \<Longrightarrow> a = k \<or> (a, b) \<in> set m"
  by (induction m) (auto split: if_splits)

lemma sorted_map_emplace:
  "sorted_wrt Less (map fst m) \<Longrightarrow> sorted_wrt Less (map fst (map_emplace k v m))"
proof (induction m)
  case Nil
  then show ?case by simp
next
  case (Cons e m)
  obtain k' v' where e: "e = (k', v')" by (cases e)
  show ?case
  proof (cases "Less k' k")
    case True
    have "\<forall>x \<in> set (map_emplace k v m). Less k' (fst x)"
    proof
      fix x
      assume x: "x \<in> set (map_emplace k v m)"
      then have "fst x = k \<or> x \<in> set m"
        using set_map_emplace [of "fst x" "snd x" k v m] by simp
      then show "Less k' (fst x)"
        using Cons.prems True e by auto
    qed
    with Cons True e show ?thesis by auto
  next
    case False
    show ?thesis
    proof (cases "Less k k'")
      case True
      with Cons.prems e False show ?thesis by (auto intro: Less_trans)
    next
      case F2: False
      with Cons.prems e False show ?thesis by simp
    qed
  qed
qed

lemma sorted_map_erase:
  "sorted_wrt Less (map fst m) \<Longrightarrow> sorted_wrt Less (map fst (map_erase k m))"
  by (induction m) (auto simp add: map_erase_def)

lemma keys_map_assign: "map fst (map_assign k v m) = map fst m"
  by (induction m) (auto simp add: map_assign_def)

lemma bucket_map_sorted: "bucket_map m \<Longrightarrow> sorted_wrt Less (map fst m)"
  by (induction rule: bucket_map.induct)
    (simp_all add: sorted_map_emplace sorted_map_erase keys_map_assign)

lemma sorted_positions:
  assumes "sorted_wrt Less (map fst m)" "i < length m" "j < length m" "Less (fst (m ! i)) (fst (m ! j))"
  shows "i < j"
proof (rule ccontr)
  assume "\<not> i < j"
  then consider "i = j" | "j < i" by linarith
  then show False
  proof cases
    case 1
    with assms(4) show False by (simp add: Less_irrefl)
  next
    case 2
    with assms(1,2) have "Less (map fst m ! j) (map fst m ! i)"
      by (simp add: sorted_wrt_iff_nth_less)
    with assms show False using 2 by (simp add: Less_asym)
  qed
qed

lemma map_assign_absent:
  "\<forall>e \<in> set m. \<not> equivalent k (fst e) \<Longrightarrow> map_assign k v m = m"
  by (induction m) (simp_all add: map_assign_def)

lemma insert_as_assign:
  "sorted_wrt Less (map fst m) \<Longrightarrow>
     ItemMaterialBucketMap_insert ident key m = m \<or>
     (\<exists>f v. f \<in> fst ` set m \<and> ItemMaterialBucketMap_insert ident key m = map_assign f v m)"
proof (induction m)
  case Nil
  then show ?case by simp
next
  case (Cons e m)
  obtain f ids where e: "e = (f, ids)" by (cases e)
  from Cons.prems e have above: "\<forall>x \<in> set m. Less f (fst x)" and sm: "sorted_wrt Less (map fst m)"
    by auto
  show ?case
  proof (cases "test f key")
    case True
    have "\<forall>x \<in> set m. \<not> equivalent f (fst x)"
      using above by (simp add: equivalent_def)
    then have "map_assign f (ids @ [ident]) m = m"
      by (rule map_assign_absent)
    then have "map_assign f (ids @ [ident]) (e # m) = (f, ids @ [ident]) # m"
      using e by (simp add: map_assign_def equivalent_def Less_irrefl)
    then have "ItemMaterialBucketMap_insert ident key (e # m) = map_assign f (ids @ [ident]) (e # m)"
      using True e by simp
    moreover have "f \<in> fst ` set (e # m)"
      using e by simp
    ultimately show ?thesis by blast
  next
    case False
    from Cons.IH [OF sm] show ?thesis
    proof
      assume "ItemMaterialBucketMap_insert ident key m = m"
      with False e show ?thesis by simp
    next
      assume "\<exists>g v. g \<in> fst ` set m \<and> ItemMaterialBucketMap_insert ident key m = map_assign g v m"
      then obtain g v where g: "g \<in> fst ` set m"
        and eq: "ItemMaterialBucketMap_insert ident key m = map_assign g v m" by blast
      from g above have "Less f g" by auto
      then have "\<not> equivalent g f" by (simp add: equivalent_def)
      then have "map_assign g v (e # m) = e # map_assign g v m"
        using e by (simp add: map_assign_def)
      then have "ItemMaterialBucketMap_insert ident key (e # m) = map_assign g v (e # m)"
        using False e eq by simp
      moreover have "g \<in> fst ` set (e # m)"
        using g by simp
      ultimately show ?thesis by blast
    qed
  qed
qed

lemma bucket_map_insert:
  assumes "bucket_map m"
  shows "bucket_map (ItemMaterialBucketMap_insert ident key m)"
proof -
  from assms have "sorted_wrt Less (map fst m)" by (rule bucket_map_sorted)
  from insert_as_assign [OF this, of ident key] show ?thesis
    using assms by (auto intro: bucket_map_assign)
qed

lemma bucket_map_allocate:
  "bucket_map m \<Longrightarrow> \<exists>m'. allocateStandardMaterialBuckets m = Inr m' \<and> bucket_map m'"
  by (simp add: allocateStandardMaterialBuckets_def opaqueAlbedo_eq and_then_def
      map_subscript_def bucket_map_emplace)


lemma sorted_wrt_Less_unique:
  "sorted_wrt Less xs \<Longrightarrow> sorted_wrt Less ys \<Longrightarrow> set xs = set ys \<Longrightarrow> xs = ys"
proof (induction xs arbitrary: ys)
  case Nil
  then show ?case by simp
next
  case (Cons x xs)
  then obtain y ys' where ys: "ys = y # ys'"
    by (cases ys) auto
  from Cons.prems ys have x_min: "\<forall>z \<in> set xs. Less x z" and y_min: "\<forall>z \<in> set ys'. Less y z"
    and sx: "sorted_wrt Less xs" and sy: "sorted_wrt Less ys'"
    by simp_all
  have "x = y"
  proof (rule ccontr)
    assume ne: "x \<noteq> y"
    from Cons.prems(3) ys have "x \<in> set (y # ys')" and "y \<in> set (x # xs)"
      by auto
    with ne have "Less y x" and "Less x y"
      using x_min y_min by auto
    then show False
      by (blast dest: Less_asym)
  qed
  moreover have "x \<notin> set xs" and "y \<notin> set ys'"
    using x_min y_min Less_irrefl by blast+
  ultimately have "set xs = set ys'"
    using Cons.prems(3) ys by auto
  with Cons.IH [OF sx sy] \<open>x = y\<close> ys show ?case
    by simp
qed

lemma sorted_wrt_Less_distinct: "sorted_wrt Less xs \<Longrightarrow> distinct xs"
  by (induction xs) (auto simp add: Less_irrefl)

text \<open>
  C3. Iterating an \<open>ItemMaterialBucketMap\<close> enumerates its buckets in the order of
  \<open>MaterialFilter::Less\<close>: in every bucket map the filters are strictly increasing from
  \<open>begin()\<close> to \<open>end()\<close>, each filter has one position, and of two filters in the map the
  \<open>Less\<close>-smaller one is enumerated first. The order is repeatable: two bucket maps
  holding the same filters enumerate them in the same order, however they were built.
\<close>

theorem bucket_map_iteration_order:
  "bucket_map m \<Longrightarrow>
     sorted_wrt Less (map fst m) \<and> distinct (map fst m) \<and>
     (\<forall>i j. i < length m \<and> j < length m \<and> Less (fst (m ! i)) (fst (m ! j)) \<longrightarrow> i < j) \<and>
     (bucket_map m' \<and> fst ` set m' = fst ` set m \<longrightarrow> map fst m' = map fst m)"
proof -
  assume bm: "bucket_map m"
  then have s: "sorted_wrt Less (map fst m)"
    by (rule bucket_map_sorted)
  then have d: "distinct (map fst m)"
    by (rule sorted_wrt_Less_distinct)
  have p: "\<forall>i j. i < length m \<and> j < length m \<and> Less (fst (m ! i)) (fst (m ! j)) \<longrightarrow> i < j"
    using s by (blast intro: sorted_positions)
  have u: "bucket_map m' \<and> fst ` set m' = fst ` set m \<longrightarrow> map fst m' = map fst m"
  proof
    assume a: "bucket_map m' \<and> fst ` set m' = fst ` set m"
    then have "sorted_wrt Less (map fst m')"
      by (blast intro: bucket_map_sorted)
    moreover from a have "set (map fst m') = set (map fst m)"
      by simp
    ultimately show "map fst m' = map fst m"
      using s by (blast intro: sorted_wrt_Less_unique)
  qed
  from s d p u show ?thesis by blast
qed

theorem bucket_map_iteration_order_witness:
  "bucket_map (map_emplace (MaterialFilter_of 1 1) [7 :: nat] (map_emplace (MaterialFilter_of 2 3) [] [])) \<and>
   map_emplace (MaterialFilter_of 1 1) [7 :: nat] (map_emplace (MaterialFilter_of 2 3) [] [])
     = [(MaterialFilter_of 1 1, [7]), (MaterialFilter_of 2 3, [])] \<and>
   Less (MaterialFilter_of 1 1) (MaterialFilter_of 2 3) \<and>
   bucket_map (map_emplace (MaterialFilter_of 2 3) [9 :: nat] (map_emplace (MaterialFilter_of 1 1) [] [])) \<and>
   map fst (map_emplace (MaterialFilter_of 2 3) [9 :: nat] (map_emplace (MaterialFilter_of 1 1) [] []))
     = map fst (map_emplace (MaterialFilter_of 1 1) [7 :: nat] (map_emplace (MaterialFilter_of 2 3) [] []))"
proof -
  let ?m = "map_emplace (MaterialFilter_of 1 1) [7 :: nat] (map_emplace (MaterialFilter_of 2 3) [] [])"
  let ?m' = "map_emplace (MaterialFilter_of 2 3) [9 :: nat] (map_emplace (MaterialFilter_of 1 1) [] [])"
  have bm: "bucket_map ?m" and bm': "bucket_map ?m'"
    by (intro bucket_map.intros)+
  have e: "?m = [(MaterialFilter_of 1 1, [7]), (MaterialFilter_of 2 3, [])]"
    and e': "?m' = [(MaterialFilter_of 1 1, []), (MaterialFilter_of 2 3, [9])]"
    by (simp_all add: Less_def to_ulong_def MaterialFilter_of_def)
  have l: "Less (MaterialFilter_of 1 1) (MaterialFilter_of 2 3)"
    by (simp add: Less_def to_ulong_def MaterialFilter_of_def)
  have "fst ` set ?m' = fst ` set ?m"
    by (simp only: e e') simp
  with bucket_map_iteration_order [OF bm, of ?m'] bm' have "map fst ?m' = map fst ?m"
    by blast
  with bm bm' e l show ?thesis
    by blast
qed

section \<open>Properties of jobs and varyings\<close>

lemma Concept_run_shape:
  "Concept_run S c sc rc s = Some (c', s') \<Longrightarrow> shape_of c' = shape_of c"
  by (cases c) (auto split: option.splits prod.splits)

lemma Job_run_shape:
  assumes "Job_run S j sc rc s = Some (j', s')"
  shows "Job_shape j' = Job_shape j"
proof (cases "j_concept j")
  case None
  with assms show ?thesis
    by (simp add: Job_run_def)
next
  case (Some c)
  with assms obtain c' where c': "Concept_run S c sc rc s = Some (c', s')"
    and j': "j' = j\<lparr>j_concept := Some c'\<rparr>"
    by (auto simp add: Job_run_def split: option.splits)
  from c' have "shape_of c' = shape_of c"
    by (rule Concept_run_shape)
  with Some j' show ?thesis
    by (simp add: Job_shape_def)
qed

text \<open>
  C4, as stated, fails for a job whose concept pointer is null: \<open>run\<close> checks the
  pointer and executes no stage path. With the stage that counts its calls, the count
  stays 0 after \<open>run\<close> of the null job, while a job with a \<open>Model\<close> brings it to 1.
\<close>

theorem Job_run_null_concept_runs_no_stage:
  "Job_run counting_Stage (Job_of None) () () \<lparr>world = 0, heap = []\<rparr>
     = Some (Job_of None, \<lparr>world = 0, heap = []\<rparr>) \<and>
   Job_run counting_Stage (Job_of (Some (Model [] ()))) () () \<lparr>world = 0, heap = []\<rparr>
     = Some (Job_of (Some (Model [] ())), \<lparr>world = 1, heap = []\<rparr>)"
  by (simp add: Job_run_def Job_of_def counting_Stage_def jobRun_def tick_def)

text \<open>
  C4, amended. \<open>run\<close> of a job with a null concept does nothing. \<open>run\<close> of a job with a
  concept executes the one stage path of the concept's shape, once: \<open>stage.run(context)\<close>
  for \<open>Model\<close>, \<open>stage.run(context, input.get<I>())\<close> for \<open>ModelI\<close>,
  \<open>stage.run(context, output.edit<O>())\<close> for \<open>ModelO\<close>, and
  \<open>stage.run(context, input.get<I>(), output.edit<O>())\<close> for \<open>ModelIO\<close>; where a slot it
  reads is unbound or holds another type, the unchecked access is undefined. The shape
  is the same after \<open>run\<close>, \<open>setName\<close> and \<open>setInput\<close>.
\<close>

theorem Job_run_dispatch:
  "Job_run S (Job_of None) sc rc s = Some (Job_of None, s) \<and>
   Job_run S (Job_of (Some (Model n d))) sc rc s =
     Some (Job_of (Some (Model n (fst (T_run S d sc rc s)))), snd (T_run S d sc rc s)) \<and>
   Job_run S (Job_of (Some (ModelI n d i inp))) sc rc s =
     (case Varying_get i inp (heap s) of
        None \<Rightarrow> None
      | Some input \<Rightarrow>
          Some (Job_of (Some (ModelI n (fst (T_run_I S d sc rc input s)) i inp)),
                snd (T_run_I S d sc rc input s))) \<and>
   Job_run S (Job_of (Some (ModelO n d ou out))) sc rc s =
     (case Varying_edit ou out (heap s) of
        None \<Rightarrow> None
      | Some output \<Rightarrow>
          Some (Job_of (Some (ModelO n (fst (T_run_O S d sc rc output s)) ou out)),
                snd (T_run_O S d sc rc output s))) \<and>
   Job_run S (Job_of (Some (ModelIO n d i ou inp out))) sc rc s =
     (case Varying_get i inp (heap s) of
        None \<Rightarrow> None
      | Some input \<Rightarrow>
          (case Varying_edit ou out (heap s) of
             None \<Rightarrow> None
           | Some output \<Rightarrow>
               Some (Job_of (Some (ModelIO n (fst (T_run_IO S d sc rc input output s)) i ou inp out)),
                     snd (T_run_IO S d sc rc input output s)))) \<and>
   (Job_run S j sc rc s = Some (j', s') \<longrightarrow> Job_shape j' = Job_shape j) \<and>
   shape_of (Concept_setName name c) = shape_of c \<and>
   (ModelIO_setInput var c = Some c' \<longrightarrow> shape_of c' = shape_of c)"
proof (intro conjI)
  show "Job_run S (Job_of None) sc rc s = Some (Job_of None, s)"
    by (simp add: Job_run_def Job_of_def)
  show "Job_run S (Job_of (Some (Model n d))) sc rc s =
     Some (Job_of (Some (Model n (fst (T_run S d sc rc s)))), snd (T_run S d sc rc s))"
    by (simp add: Job_run_def Job_of_def jobRun_def split: prod.splits)
  show "Job_run S (Job_of (Some (ModelI n d i inp))) sc rc s =
     (case Varying_get i inp (heap s) of
        None \<Rightarrow> None
      | Some input \<Rightarrow>
          Some (Job_of (Some (ModelI n (fst (T_run_I S d sc rc input s)) i inp)),
                snd (T_run_I S d sc rc input s)))"
    by (simp add: Job_run_def Job_of_def jobRunI_def split: prod.splits option.splits)
  show "Job_run S (Job_of (Some (ModelO n d ou out))) sc rc s =
     (case Varying_edit ou out (heap s) of
        None \<Rightarrow> None
      | Some output \<Rightarrow>
          Some (Job_of (Some (ModelO n (fst (T_run_O S d sc rc output s)) ou out)),
                snd (T_run_O S d sc rc output s)))"
    by (simp add: Job_run_def Job_of_def jobRunO_def split: prod.splits option.splits)
  show "Job_run S (Job_of (Some (ModelIO n d i ou inp out))) sc rc s =
     (case Varying_get i inp (heap s) of
        None \<Rightarrow> None
      | Some input \<Rightarrow>
          (case Varying_edit ou out (heap s) of
             None \<Rightarrow> None
           | Some output \<Rightarrow>
               Some (Job_of (Some (ModelIO n (fst (T_run_IO S d sc rc input output s)) i ou inp out)),
                     snd (T_run_IO S d sc rc input output s))))"
    by (simp add: Job_run_def Job_of_def jobRunIO_def split: prod.splits option.splits)
  show "Job_run S j sc rc s = Some (j', s') \<longrightarrow> Job_shape j' = Job_shape j"
    by (blast dest: Job_run_shape)
  show "shape_of (Concept_setName name c) = shape_of c"
    by (cases c) simp_all
  show "ModelIO_setInput var c = Some c' \<longrightarrow> shape_of c' = shape_of c"
    by (cases c) auto
qed

theorem Job_run_dispatch_witness:
  "Job_run counting_Stage
     (Job_of (Some (ModelIO ''cull'' () () () \<lparr>v_concept = Some 0, consumerJobs = []\<rparr>
        \<lparr>v_concept = Some 1, consumerJobs = []\<rparr>))) () ()
     \<lparr>world = 0, heap = [\<lparr>Model_T = (), Model_data = ()\<rparr>, \<lparr>Model_T = (), Model_data = ()\<rparr>]\<rparr>
   = Some (Job_of (Some (ModelIO ''cull'' () () () \<lparr>v_concept = Some 0, consumerJobs = []\<rparr>
        \<lparr>v_concept = Some 1, consumerJobs = []\<rparr>)),
      \<lparr>world = 1, heap = [\<lparr>Model_T = (), Model_data = ()\<rparr>, \<lparr>Model_T = (), Model_data = ()\<rparr>]\<rparr>) \<and>
   Job_shape (Job_of (Some (ModelIO ''cull'' () () () \<lparr>v_concept = Some 0, consumerJobs = []\<rparr>
        \<lparr>v_concept = Some 1, consumerJobs = []\<rparr>)) :: (unit, unit) Job) = Some InputOutput \<and>
   ModelIO_setInput \<lparr>v_concept = Some 1, consumerJobs = []\<rparr>
     (ModelIO ''cull'' () () () \<lparr>v_concept = Some 0, consumerJobs = []\<rparr>
        \<lparr>v_concept = Some 1, consumerJobs = []\<rparr> :: (unit, unit) Concept)
   = Some (ModelIO ''cull'' () () () \<lparr>v_concept = Some 1, consumerJobs = []\<rparr>
        \<lparr>v_concept = Some 1, consumerJobs = []\<rparr>)"
  using Job_run_dispatch [where S = counting_Stage and sc = "()" and rc = "()"
      and s = "\<lparr>world = 0, heap = [\<lparr>Model_T = (), Model_data = ()\<rparr>, \<lparr>Model_T = (), Model_data = ()\<rparr>]\<rparr>"
      and n = "''cull''" and d = "()" and i = "()" and ou = "()"
      and inp = "\<lparr>v_concept = Some 0, consumerJobs = []\<rparr>"
      and out = "\<lparr>v_concept = Some 1, consumerJobs = []\<rparr>"
      and j = "Job_of (Some (ModelIO ''cull'' () () () \<lparr>v_concept = Some 0, consumerJobs = []\<rparr>
        \<lparr>v_concept = Some 1, consumerJobs = []\<rparr>))"
      and j' = "Job_of (Some (ModelIO ''cull'' () () () \<lparr>v_concept = Some 0, consumerJobs = []\<rparr>
        \<lparr>v_concept = Some 1, consumerJobs = []\<rparr>))"
      and s' = "\<lparr>world = 1, heap = [\<lparr>Model_T = (), Model_data = ()\<rparr>, \<lparr>Model_T = (), Model_data = ()\<rparr>]\<rparr>"
      and c = "ModelIO ''cull'' () () () \<lparr>v_concept = Some 0, consumerJobs = []\<rparr>
        \<lparr>v_concept = Some 1, consumerJobs = []\<rparr>"
      and var = "\<lparr>v_concept = Some 1, consumerJobs = []\<rparr>"
      and c' = "ModelIO ''cull'' () () () \<lparr>v_concept = Some 1, consumerJobs = []\<rparr>
        \<lparr>v_concept = Some 1, consumerJobs = []\<rparr>"]
  by (simp add: Job_shape_def Job_of_def Varying_get_def Varying_edit_def counting_Stage_def
      tick_def)

lemma Varying_get_copy: "Varying_get ty (Varying_copy var) h = Varying_get ty var h"
  by (simp add: Varying_get_def Varying_copy_def)

lemma Varying_edit_Some:
  "Varying_edit ty var h = Some r \<Longrightarrow> v_concept var = Some r \<and> r < length h \<and> Model_T (h ! r) = ty"
  by (auto simp add: Varying_edit_def split: option.splits if_splits)

lemma Varying_get_after_assign:
  assumes "Varying_edit ty var h = Some r" and "v_concept var' = v_concept var"
  shows "Varying_get ty var' (assign h r x) = Some r" and "load (assign h r x) r = x"
  using Varying_edit_Some [OF assms(1)] assms(2)
  by (simp_all add: Varying_get_def assign_def load_def)

text \<open>
  C5. Copies of one \<open>Varying\<close> share the payload: once a value is assigned through the
  reference that \<open>edit<O>()\<close> of one copy returns, \<open>get<O>()\<close> of every copy of the slot
  refers to that value. Between adjacent jobs: after an output-only job whose stage
  assigns \<open>x\<close> to its output has run, the input of a job built on \<open>getOutput()\<close> of the
  first reads \<open>x\<close>.
\<close>

theorem Varying_read_after_write:
  "(Varying_edit ty var h = Some r \<and> v_concept var' = v_concept var \<longrightarrow>
      Varying_get ty var' (assign h r x) = Some r \<and> load (assign h r x) r = x \<and>
      Varying_get ty (Varying_copy var) (assign h r x) = Some r) \<and>
   (Varying_edit ty out (heap s) = Some r' \<longrightarrow>
      (\<exists>c1 s1. Concept_run (writing_Stage x) (ModelO n d ty out) sc rc s = Some (c1, s1) \<and>
         Varying_get ty (Concept_getInput (ModelI_input e ty (Concept_getOutput c1))) (heap s1) = Some r' \<and>
         load (heap s1) r' = x))"
proof (intro conjI impI)
  assume a: "Varying_edit ty var h = Some r \<and> v_concept var' = v_concept var"
  then show "Varying_get ty var' (assign h r x) = Some r"
    by (blast intro: Varying_get_after_assign)
  from a show "load (assign h r x) r = x"
    by (blast intro: Varying_get_after_assign)
  from a have "Varying_get ty var (assign h r x) = Some r"
    by (blast intro: Varying_get_after_assign)
  then show "Varying_get ty (Varying_copy var) (assign h r x) = Some r"
    by (simp add: Varying_get_copy)
next
  assume e: "Varying_edit ty out (heap s) = Some r'"
  let ?s1 = "s\<lparr>heap := assign (heap s) r' x\<rparr>"
  have run: "Concept_run (writing_Stage x) (ModelO n d ty out) sc rc s = Some (ModelO n d ty out, ?s1)"
    using e by (simp add: jobRunO_def writing_Stage_def)
  have "Varying_get ty out (assign (heap s) r' x) = Some r'" and "load (assign (heap s) r' x) r' = x"
    using Varying_get_after_assign [OF e, of out x] by simp_all
  then have "Varying_get ty (Concept_getInput (ModelI_input e ty (Concept_getOutput (ModelO n d ty out))))
      (heap ?s1) = Some r' \<and> load (heap ?s1) r' = x"
    by (simp add: ModelI_input_def Varying_get_copy)
  with run show "\<exists>c1 s1. Concept_run (writing_Stage x) (ModelO n d ty out) sc rc s = Some (c1, s1) \<and>
         Varying_get ty (Concept_getInput (ModelI_input e ty (Concept_getOutput c1))) (heap s1) = Some r' \<and>
         load (heap s1) r' = x"
    by blast
qed

theorem Varying_read_after_write_witness:
  "Varying_edit ''ItemIDsBounds'' \<lparr>v_concept = Some 0, consumerJobs = []\<rparr>
      [\<lparr>Model_T = ''ItemIDsBounds'', Model_data = [] :: nat list\<rparr>] = Some 0 \<and>
   Varying_get ''ItemIDsBounds'' (Varying_copy \<lparr>v_concept = Some 0, consumerJobs = []\<rparr>)
      (assign [\<lparr>Model_T = ''ItemIDsBounds'', Model_data = []\<rparr>] 0 [3, 5 :: nat]) = Some 0 \<and>
   load (assign [\<lparr>Model_T = ''ItemIDsBounds'', Model_data = []\<rparr>] 0 [3, 5 :: nat]) 0 = [3, 5]"
  using Varying_read_after_write [where ty = "''ItemIDsBounds''"
      and var = "\<lparr>v_concept = Some 0, consumerJobs = []\<rparr>"
      and var' = "\<lparr>v_concept = Some 0, consumerJobs = []\<rparr>"
      and out = "\<lparr>v_concept = Some 0, consumerJobs = []\<rparr>"
      and h = "[\<lparr>Model_T = ''ItemIDsBounds'', Model_data = [] :: nat list\<rparr>]"
      and s = "\<lparr>world = (), heap = [\<lparr>Model_T = ''ItemIDsBounds'', Model_data = [] :: nat list\<rparr>]\<rparr>"
      and r = 0 and r' = 0 and x = "[3, 5 :: nat]"
      and n = "''fetch''" and d = "()" and sc = "()" and rc = "()" and e = "()"]
  by (simp add: Varying_edit_def)

lemma Varying_of_get:
  "Varying_of ty d h = (var, h') \<Longrightarrow>
     Varying_get ty (Varying_copy var) h' = Some (length h) \<and> load h' (length h) = d"
  by (auto simp add: Varying_of_def Varying_get_def Varying_copy_def load_def)

text \<open>
  C8. The constructors \<open>ModelO()\<close>, \<open>ModelO(Data)\<close> and \<open>ModelIO(const Varying&)\<close>, which
  take no output, bind the output varying to a new payload holding \<open>Output()\<close>: right
  after construction \<open>getOutput().get<O>()\<close> is defined and reads the default value of
  the output type.
\<close>

theorem output_default_after_construction:
  "(\<exists>c h'. ModelO_new init d0 ou h = (c, h') \<and> shape_of c = OutputOnly \<and>
      Job_getOutput (Job_of (Some c)) = Some (Concept_getOutput c) \<and>
      Varying_get ou (Concept_getOutput c) h' = Some (length h) \<and> load h' (length h) = init ou) \<and>
   (\<exists>c h'. ModelO_data init d ou h = (c, h') \<and> shape_of c = OutputOnly \<and>
      Job_getOutput (Job_of (Some c)) = Some (Concept_getOutput c) \<and>
      Varying_get ou (Concept_getOutput c) h' = Some (length h) \<and> load h' (length h) = init ou) \<and>
   (\<exists>c h'. ModelIO_input init d0 i ou input h = (c, h') \<and> shape_of c = InputOutput \<and>
      Job_getOutput (Job_of (Some c)) = Some (Concept_getOutput c) \<and>
      Varying_get ou (Concept_getOutput c) h' = Some (length h) \<and> load h' (length h) = init ou)"
proof (intro conjI)
  obtain out h' where v: "Varying_of ou (init ou) h = (out, h')"
    by (cases "Varying_of ou (init ou) h")
  note g = Varying_of_get [OF v]
  show "\<exists>c h'. ModelO_new init d0 ou h = (c, h') \<and> shape_of c = OutputOnly \<and>
      Job_getOutput (Job_of (Some c)) = Some (Concept_getOutput c) \<and>
      Varying_get ou (Concept_getOutput c) h' = Some (length h) \<and> load h' (length h) = init ou"
    using v g by (simp add: ModelO_new_def Job_getOutput_def Job_of_def)
  show "\<exists>c h'. ModelO_data init d ou h = (c, h') \<and> shape_of c = OutputOnly \<and>
      Job_getOutput (Job_of (Some c)) = Some (Concept_getOutput c) \<and>
      Varying_get ou (Concept_getOutput c) h' = Some (length h) \<and> load h' (length h) = init ou"
    using v g by (simp add: ModelO_data_def Job_getOutput_def Job_of_def)
  show "\<exists>c h'. ModelIO_input init d0 i ou input h = (c, h') \<and> shape_of c = InputOutput \<and>
      Job_getOutput (Job_of (Some c)) = Some (Concept_getOutput c) \<and>
      Varying_get ou (Concept_getOutput c) h' = Some (length h) \<and> load h' (length h) = init ou"
    using v g by (simp add: ModelIO_input_def Job_getOutput_def Job_of_def)
qed

end
